theory Spec2Isabelle
  imports Main
begin

section \<open>Type checking of distributed actors: the declarations the checker reads\<close>

text \<open>
  The development embeds \<^verbatim>\<open>lib/Sema/TypeCheckDistributed.cpp\<close>. The checker only reads
  declarations; what it reads of each declaration is a field of a record here, named after
  the accessor the source calls. Types are kept in canonical form, so that the source's
  \<^verbatim>\<open>Type::isEqual\<close> is equality and \<^verbatim>\<open>getDesugaredType\<close> and
  \<^verbatim>\<open>mapTypeIntoContext\<close> change nothing. Source locations and fix-its are not part of a
  diagnostic here: a diagnostic is its identifier and the names it is given.
\<close>

type_synonym Identifier = string

text \<open>A protocol declaration is identified by its name.\<close>

type_synonym ProtocolDecl = string

datatype AccessLevel = Private | FilePrivate | Internal | Public | Open

text \<open>The enumerators of \<^verbatim>\<open>AccessLevel\<close> in their declared order; the source compares them
  with \<^verbatim>\<open>>=\<close> and \<^verbatim>\<open>!=\<close>.\<close>

fun accessRank :: "AccessLevel \<Rightarrow> nat" where
  "accessRank Private = 0"
| "accessRank FilePrivate = 1"
| "accessRank Internal = 2"
| "accessRank Public = 3"
| "accessRank Open = 4"

datatype Type =
    ErrorType
  | TupleType "Type list"
  | NominalType Identifier
  | GenericTypeParamType Identifier
  | DependentMemberType Type Identifier
  | MetatypeType Type
  | ProtocolType ProtocolDecl
  | ProtocolCompositionType "Type list"
  | ExistentialType Type

text \<open>\<^verbatim>\<open>hasError\<close>: an error type occurs somewhere in the type.\<close>

fun hasError :: "Type \<Rightarrow> bool" where
  "hasError ErrorType = True"
| "hasError (TupleType ts) = list_ex hasError ts"
| "hasError (NominalType n) = False"
| "hasError (GenericTypeParamType n) = False"
| "hasError (DependentMemberType t n) = hasError t"
| "hasError (MetatypeType t) = hasError t"
| "hasError (ProtocolType p) = False"
| "hasError (ProtocolCompositionType ts) = list_ex hasError ts"
| "hasError (ExistentialType t) = hasError t"

text \<open>\<^verbatim>\<open>isVoid\<close>: the empty tuple.\<close>

definition isVoid :: "Type \<Rightarrow> bool" where
  "isVoid t = (t = TupleType [])"

text \<open>\<^verbatim>\<open>getMetatypeInstanceType\<close>: the instance type of a metatype, any other type itself.\<close>

fun getMetatypeInstanceType :: "Type \<Rightarrow> Type" where
  "getMetatypeInstanceType (MetatypeType t) = t"
| "getMetatypeInstanceType t = t"

datatype RequirementKind = Conformance | Superclass | SameType | Layout

text \<open>A generic requirement: its kind, its first type, and its second type. The second type
  of a conformance requirement is the protocol's type.\<close>

record Requirement =
  req_getKind :: RequirementKind
  req_getFirstType :: Type
  req_getSecondType :: Type

text \<open>\<^verbatim>\<open>getProtocolDecl\<close> is asked of conformance requirements only.\<close>

fun protocolOfType :: "Type \<Rightarrow> ProtocolDecl option" where
  "protocolOfType (ProtocolType p) = Some p"
| "protocolOfType t = None"

definition req_getProtocolDecl :: "Requirement \<Rightarrow> ProtocolDecl option" where
  "req_getProtocolDecl r = protocolOfType (req_getSecondType r)"

record ParamDecl =
  param_getArgumentName :: Identifier
  param_getName :: Identifier
  param_getInterfaceType :: Type
  param_isInOut :: bool
  param_isVariadic :: bool

text \<open>What the checker reads of a function or an initializer. \<^verbatim>\<open>func_getGenericParams\<close>
  is the pointer to the generic parameter list: \<open>None\<close> is the null pointer of a function
  that is not generic, and a list holds the interface type of each of its declarations (a
  metatype), in order.\<close>

record AbstractFunctionDecl =
  func_getName :: Identifier
  func_getGenericParams :: "Type list option"
  func_getGenericRequirements :: "Requirement list"
  func_getParameters :: "ParamDecl list"
  func_hasAsync :: bool
  func_hasThrows :: bool
  func_getResultInterfaceType :: Type
  func_getEffectiveAccess :: AccessLevel
  func_isMutating :: bool
  func_isDistributed :: bool
  func_isDesignatedInit :: bool

datatype WriteImplKind = Immutable | Stored | StoredWithObservers | InheritedWithObservers
  | Setter | MutableAddress | Modify

record VarDecl =
  var_getName :: Identifier
  var_getInterfaceType :: Type
  var_isStatic :: bool
  var_isLet :: bool
  var_hasStorageOrWrapsStorage :: bool
  var_getWriteImpl :: WriteImplKind
  var_isSynthesized :: bool

text \<open>A member of a nominal type. \<^verbatim>\<open>dyn_cast\<close> to a declaration class is a function to
  \<open>option\<close>: both functions and initializers are \<^verbatim>\<open>AbstractFunctionDecl\<close>, only
  functions are \<^verbatim>\<open>FuncDecl\<close>.\<close>

datatype ValueDecl =
    FuncDeclV AbstractFunctionDecl
  | ConstructorDeclV AbstractFunctionDecl
  | VarDeclV VarDecl
  | OtherDeclV Identifier

fun dyn_cast_AbstractFunctionDecl :: "ValueDecl \<Rightarrow> AbstractFunctionDecl option" where
  "dyn_cast_AbstractFunctionDecl (FuncDeclV f) = Some f"
| "dyn_cast_AbstractFunctionDecl (ConstructorDeclV f) = Some f"
| "dyn_cast_AbstractFunctionDecl d = None"

fun dyn_cast_FuncDecl :: "ValueDecl \<Rightarrow> AbstractFunctionDecl option" where
  "dyn_cast_FuncDecl (FuncDeclV f) = Some f"
| "dyn_cast_FuncDecl d = None"

fun dyn_cast_ConstructorDecl :: "ValueDecl \<Rightarrow> AbstractFunctionDecl option" where
  "dyn_cast_ConstructorDecl (ConstructorDeclV f) = Some f"
| "dyn_cast_ConstructorDecl d = None"

fun dyn_cast_VarDecl :: "ValueDecl \<Rightarrow> VarDecl option" where
  "dyn_cast_VarDecl (VarDeclV v) = Some v"
| "dyn_cast_VarDecl d = None"

fun value_getBaseName :: "ValueDecl \<Rightarrow> Identifier" where
  "value_getBaseName (FuncDeclV f) = func_getName f"
| "value_getBaseName (ConstructorDeclV f) = func_getName f"
| "value_getBaseName (VarDeclV v) = var_getName v"
| "value_getBaseName (OtherDeclV n) = n"

text \<open>What the checker reads of a nominal type. The last four fields are the answers of
  requests that this file only calls: the type's \<^verbatim>\<open>ActorID\<close>, the type bound to its
  \<^verbatim>\<open>SerializationRequirement\<close> (\<^verbatim>\<open>getDistributedSerializationRequirementType\<close>),
  whether a class is a distributed actor, and the actor system type of an actor
  (\<^verbatim>\<open>getDistributedActorSystemType\<close>).\<close>

record NominalTypeDecl =
  nominal_getName :: Identifier
  nominal_getDescriptiveKind :: string
  nominal_getDeclaredInterfaceType :: Type
  nominal_getEffectiveAccess :: AccessLevel
  nominal_getMembers :: "ValueDecl list"
  nominal_getActorID :: Type
  nominal_getSerializationRequirementType :: Type
  nominal_isDistributedActor :: bool
  nominal_getDistributedActorSystemType :: Type

text \<open>\<^verbatim>\<open>lookupDirect\<close>: the direct members of that base name, in declaration order.\<close>

definition lookupDirect :: "NominalTypeDecl \<Rightarrow> Identifier \<Rightarrow> ValueDecl list" where
  "lookupDirect decl identifier =
     filter (\<lambda>v. value_getBaseName v = identifier) (nominal_getMembers decl)"

datatype KnownProtocolKind =
    DistributedActor
  | DistributedActorSystem
  | DistributedTargetInvocationEncoder
  | DistributedTargetInvocationDecoder
  | DistributedTargetInvocationResultHandler
  | Encodable
  | Decodable

text \<open>The context: whether the \<^verbatim>\<open>Distributed\<close> module is loaded, the known protocols
  (\<open>None\<close> for a null pointer), and the oracles the checker consults: conformance
  (\<open>True\<close> for a valid conformance), the invocation decoder of an actor, member lookup.\<close>

record ASTContext =
  ctx_DistributedLoaded :: bool
  ctx_getProtocol :: "KnownProtocolKind \<Rightarrow> ProtocolDecl option"
  ctx_conformsToProtocol :: "Type \<Rightarrow> ProtocolDecl \<Rightarrow> bool"
  ctx_getDistributedActorInvocationDecoder :: "NominalTypeDecl \<Rightarrow> NominalTypeDecl option"
  ctx_lookupMember :: "Type \<Rightarrow> Identifier \<Rightarrow> ValueDecl list"

text \<open>The diagnostics of this file, each with the declaration names it is given.\<close>

datatype Diag =
    distributed_actor_needs_explicit_distributed_import
  | distributed_actor_system_conformance_missing_adhoc_requirement string Identifier Identifier
  | note_distributed_actor_system_conformance_missing_adhoc_requirement Identifier Identifier
  | witness_not_accessible_type Identifier AccessLevel ProtocolDecl
  | distributed_actor_target_result_not_codable Type Identifier string
  | distributed_actor_func_param_not_codable Identifier Type string
  | distributed_actor_func_inout Identifier Identifier
  | distributed_actor_func_variadic Identifier Identifier
  | distributed_property_cannot_be_static Identifier
  | distributed_property_can_only_be_computed Identifier
  | distributed_property_can_only_be_computed_get_only Identifier
  | distributed_actor_user_defined_special_property Identifier
  | distributed_actor_designated_ctor_missing_transport_param Identifier
  | distributed_actor_designated_ctor_must_have_one_distributedactorsystem_param Identifier int

text \<open>An assertion that fails, a cast to a class the value does not have, a point marked
  unreachable that is reached, or a member access through a null pointer, stops the
  compiler.\<close>

datatype Trap = AssertionFailed string | CastFailed string | Unreachable string
  | NullDereference string

section \<open>Designated initializers of distributed actors\<close>

text \<open>The loop of \<^verbatim>\<open>checkDistributedActorConstructor\<close>: it counts the parameters whose
  type is the actor system type. The count is an \<^verbatim>\<open>int\<close> in the source; a parameter list
  is far shorter than its range, the count here is unbounded.\<close>

fun countTransportParams :: "Type \<Rightarrow> ParamDecl list \<Rightarrow> int \<Rightarrow> int" where
  "countTransportParams actorSystemTy [] transportParamsCount = transportParamsCount"
| "countTransportParams actorSystemTy (param # params) transportParamsCount =
     (if param_getInterfaceType param = actorSystemTy
      then countTransportParams actorSystemTy params (transportParamsCount + 1)
      else countTransportParams actorSystemTy params transportParamsCount)"

definition checkDistributedActorConstructor ::
  "NominalTypeDecl \<Rightarrow> AbstractFunctionDecl \<Rightarrow> Diag list" where
  "checkDistributedActorConstructor decl ctor =
     (if \<not> nominal_isDistributedActor decl then []
      else if \<not> func_isDesignatedInit ctor then []
      else
        let actorSystemTy = nominal_getDistributedActorSystemType decl;
            transportParamsCount = countTransportParams actorSystemTy (func_getParameters ctor) 0
        in if transportParamsCount = 0
           then [distributed_actor_designated_ctor_missing_transport_param (func_getName ctor)]
           else if transportParamsCount = 1 then []
           else [distributed_actor_designated_ctor_must_have_one_distributedactorsystem_param
                   (func_getName ctor) transportParamsCount])"

section \<open>Access control of an ad-hoc requirement\<close>

text \<open>\<^verbatim>\<open>checkAdHocRequirementAccessControl\<close>: \<open>None\<close> is the null function. The result is the
  returned flag and the diagnostics emitted.\<close>

definition checkAdHocRequirementAccessControl ::
  "NominalTypeDecl \<Rightarrow> ProtocolDecl \<Rightarrow> AbstractFunctionDecl option \<Rightarrow> bool \<times> Diag list" where
  "checkAdHocRequirementAccessControl decl proto func =
     (case func of
        None \<Rightarrow> (False, [])
      | Some f \<Rightarrow>
          if accessRank (nominal_getEffectiveAccess decl) \<ge> accessRank Public
             \<and> func_getEffectiveAccess f \<noteq> Public
          then (True, [witness_not_accessible_type (func_getName f) Public proto])
          else (False, []))"

section \<open>The serialization requirement of a type\<close>

text \<open>A \<^verbatim>\<open>SmallPtrSet\<close> of protocols is a list without repetition; the order of the list
  is the order in which the source's loops visit the set.\<close>

text \<open>Modelled from the spec: \<^verbatim>\<open>flattenDistributedSerializationTypeToRequiredProtocols\<close>
  is declared outside this file. A single protocol gives a singleton, a conjunction the
  union of its flattened members, to any depth, and the unconstrained type (the empty
  conjunction) the empty set.\<close>

fun flattenDistributedSerializationTypeToRequiredProtocols :: "Type \<Rightarrow> ProtocolDecl list" where
  "flattenDistributedSerializationTypeToRequiredProtocols (ProtocolType p) = [p]"
| "flattenDistributedSerializationTypeToRequiredProtocols (ProtocolCompositionType ts) =
     remdups (concat (map flattenDistributedSerializationTypeToRequiredProtocols ts))"
| "flattenDistributedSerializationTypeToRequiredProtocols (ExistentialType t) =
     flattenDistributedSerializationTypeToRequiredProtocols t"
| "flattenDistributedSerializationTypeToRequiredProtocols t = []"

text \<open>Modelled from the spec: \<^verbatim>\<open>checkDistributedSerializationRequirementIsExactlyCodable\<close>
  is declared outside this file. The set is exactly the two canonical serialization
  protocols.\<close>

definition checkDistributedSerializationRequirementIsExactlyCodable ::
  "ASTContext \<Rightarrow> ProtocolDecl list \<Rightarrow> bool" where
  "checkDistributedSerializationRequirementIsExactlyCodable C serializationRequirements =
     (case (ctx_getProtocol C Encodable, ctx_getProtocol C Decodable) of
        (Some e, Some d) \<Rightarrow> set serializationRequirements = {e, d}
      | _ \<Rightarrow> False)"

text \<open>\<^verbatim>\<open>getDistributedSerializationRequirementProtocols\<close>. \<^verbatim>\<open>castTo\<close> stops the compiler
  when the type is not of the class asked for.\<close>

definition getDistributedSerializationRequirementProtocols ::
  "NominalTypeDecl \<Rightarrow> ProtocolDecl option \<Rightarrow> Trap + ProtocolDecl list" where
  "getDistributedSerializationRequirementProtocols nominal protocol =
     (case protocol of
        None \<Rightarrow> Inr []
      | Some p \<Rightarrow>
          let ty = nominal_getSerializationRequirementType nominal
          in if hasError ty then Inr []
             else (case ty of
                     ExistentialType constraintType \<Rightarrow>
                       Inr (flattenDistributedSerializationTypeToRequiredProtocols constraintType)
                   | _ \<Rightarrow> Inl (CastFailed ''ExistentialType'')))"

section \<open>Locating the implementations of ad-hoc requirements\<close>

definition DistributedModuleIsAvailableRequest_evaluate :: "ASTContext \<Rightarrow> bool \<times> Diag list" where
  "DistributedModuleIsAvailableRequest_evaluate C =
     (if ctx_DistributedLoaded C then (True, [])
      else (False, [distributed_actor_needs_explicit_distributed_import]))"

definition ensureDistributedModuleLoaded :: "ASTContext \<Rightarrow> bool \<times> Diag list" where
  "ensureDistributedModuleLoaded C = DistributedModuleIsAvailableRequest_evaluate C"

text \<open>The loop of \<^verbatim>\<open>findDistributedAdHocRequirement\<close> over the looked-up members.\<close>

fun findFirstMatching ::
  "(AbstractFunctionDecl \<Rightarrow> bool) \<Rightarrow> ValueDecl list \<Rightarrow> AbstractFunctionDecl option" where
  "findFirstMatching matchFn [] = None"
| "findFirstMatching matchFn (v # vs) =
     (case dyn_cast_AbstractFunctionDecl v of
        Some func \<Rightarrow> if matchFn func then Some func else findFirstMatching matchFn vs
      | None \<Rightarrow> findFirstMatching matchFn vs)"

text \<open>\<^verbatim>\<open>findDistributedAdHocRequirement\<close>: the function found (\<open>None\<close> for the null
  pointer) and the diagnostics emitted on the way, of which the source has none.\<close>

definition findDistributedAdHocRequirement ::
  "ASTContext \<Rightarrow> NominalTypeDecl \<Rightarrow> Identifier \<Rightarrow> (AbstractFunctionDecl \<Rightarrow> bool)
     \<Rightarrow> AbstractFunctionDecl option \<times> Diag list" where
  "findDistributedAdHocRequirement C decl identifier matchFn =
     (if \<not> ctx_DistributedLoaded C then (None, [])
      else (findFirstMatching matchFn (lookupDirect decl identifier), []))"

subsection \<open>The templates of the operations\<close>

text \<open>The predicates \<^verbatim>\<open>isDistributedActorSystemRemoteCall\<close> and
  \<^verbatim>\<open>isDistributedTargetInvocationEncoderRecord...\<close> are methods of the declaration classes
  and are not in this file; they follow the templates of the specification.\<close>

text \<open>The types of the generic parameters of a function as the templates read them: none
  for a function that is not generic.\<close>

definition genericParamTypes :: "AbstractFunctionDecl \<Rightarrow> Type list" where
  "genericParamTypes func =
     (case func_getGenericParams func of
        None \<Rightarrow> []
      | Some genericParamList \<Rightarrow> map getMetatypeInstanceType genericParamList)"

definition hasConformanceReq :: "Requirement list \<Rightarrow> Type \<Rightarrow> ProtocolDecl \<Rightarrow> bool" where
  "hasConformanceReq reqs t p =
     list_ex (\<lambda>r. req_getKind r = Conformance \<and> req_getFirstType r = t
                  \<and> req_getProtocolDecl r = Some p) reqs"

definition hasSameTypeReq :: "Requirement list \<Rightarrow> Type \<Rightarrow> Type \<Rightarrow> bool" where
  "hasSameTypeReq reqs t u =
     list_ex (\<lambda>r. req_getKind r = SameType \<and> req_getFirstType r = t
                  \<and> req_getSecondType r = u) reqs"

text \<open>Modelled from the spec: the serialization requirement current for a type, as the
  templates use it: the flattened bound type, and no protocol at all when the bound type
  cannot be resolved.\<close>

definition currentSerializationRequirement :: "NominalTypeDecl \<Rightarrow> ProtocolDecl list" where
  "currentSerializationRequirement decl =
     (let ty = nominal_getSerializationRequirementType decl
      in if hasError ty then []
         else flattenDistributedSerializationTypeToRequiredProtocols ty)"

text \<open>Modelled from the spec: \<^verbatim>\<open>AbstractFunctionDecl::isDistributedActorSystemRemoteCall\<close>
  is not in this file. The value-returning call operation has (a) the generic parameters
  Act, Err, Res; (b) the requirements that Act is a distributed actor, that Act's ID is the
  ActorID of the conforming type, that Err is an error, and that Res conforms to every
  protocol of the serialization requirement; (c) the parameters labelled on, target,
  invocation (in-out), throwing, returning, in that order; (d) it may suspend and may fail;
  (e) its return type is exactly Res. The void-returning operation has no Res and no
  returning parameter, and declares no return value.\<close>

definition isDistributedActorSystemRemoteCall ::
  "NominalTypeDecl \<Rightarrow> AbstractFunctionDecl \<Rightarrow> bool \<Rightarrow> bool" where
  "isDistributedActorSystemRemoteCall decl func isVoidReturn =
     (let reqs = func_getGenericRequirements func;
          params = func_getParameters func
      in case genericParamTypes func of
           [Act, Err, Res] \<Rightarrow>
             \<not> isVoidReturn
             \<and> hasConformanceReq reqs Act ''DistributedActor''
             \<and> hasSameTypeReq reqs (DependentMemberType Act ''ID'') (nominal_getActorID decl)
             \<and> hasConformanceReq reqs Err ''Error''
             \<and> list_all (hasConformanceReq reqs Res) (currentSerializationRequirement decl)
             \<and> map param_getArgumentName params =
                 [''on'', ''target'', ''invocation'', ''throwing'', ''returning'']
             \<and> map param_isInOut params = [False, False, True, False, False]
             \<and> func_hasAsync func \<and> func_hasThrows func
             \<and> func_getResultInterfaceType func = Res
         | [Act, Err] \<Rightarrow>
             isVoidReturn
             \<and> hasConformanceReq reqs Act ''DistributedActor''
             \<and> hasSameTypeReq reqs (DependentMemberType Act ''ID'') (nominal_getActorID decl)
             \<and> hasConformanceReq reqs Err ''Error''
             \<and> map param_getArgumentName params =
                 [''on'', ''target'', ''invocation'', ''throwing'']
             \<and> map param_isInOut params = [False, False, True, False]
             \<and> func_hasAsync func \<and> func_hasThrows func
             \<and> isVoid (func_getResultInterfaceType func)
         | _ \<Rightarrow> False)"

text \<open>Modelled from the spec: the recording operations of the encoder are not in this file.
  A recorder has exactly one parameter (the argument recorder a value of its generic
  parameter, the other two a type token of it), exactly one generic parameter, may fail
  and is mutating. The generic parameter of the argument and return-type recorders
  conforms to every protocol of the serialization requirement, whatever else constrains
  it; the generic parameter of the error-type recorder is an error.\<close>

definition isDistributedTargetInvocationEncoderRecordArgument ::
  "NominalTypeDecl \<Rightarrow> AbstractFunctionDecl \<Rightarrow> bool" where
  "isDistributedTargetInvocationEncoderRecordArgument decl func =
     (case genericParamTypes func of
        [Argument] \<Rightarrow>
          map param_getInterfaceType (func_getParameters func) = [Argument]
          \<and> list_all (hasConformanceReq (func_getGenericRequirements func) Argument)
                (currentSerializationRequirement decl)
          \<and> func_hasThrows func \<and> func_isMutating func
      | _ \<Rightarrow> False)"

text \<open>Modelled from the spec: the return-type recorder, which takes a type token of its
  generic parameter.\<close>

definition isDistributedTargetInvocationEncoderRecordReturnType ::
  "NominalTypeDecl \<Rightarrow> AbstractFunctionDecl \<Rightarrow> bool" where
  "isDistributedTargetInvocationEncoderRecordReturnType decl func =
     (case genericParamTypes func of
        [Res] \<Rightarrow>
          map param_getInterfaceType (func_getParameters func) = [MetatypeType Res]
          \<and> list_all (hasConformanceReq (func_getGenericRequirements func) Res)
                (currentSerializationRequirement decl)
          \<and> func_hasThrows func \<and> func_isMutating func
      | _ \<Rightarrow> False)"

text \<open>Modelled from the spec: the error-type recorder, whose generic parameter is
  constrained to the error abstraction and not to the serialization requirement.\<close>

definition isDistributedTargetInvocationEncoderRecordErrorType ::
  "NominalTypeDecl \<Rightarrow> AbstractFunctionDecl \<Rightarrow> bool" where
  "isDistributedTargetInvocationEncoderRecordErrorType decl func =
     (case genericParamTypes func of
        [Err] \<Rightarrow>
          map param_getInterfaceType (func_getParameters func) = [MetatypeType Err]
          \<and> hasConformanceReq (func_getGenericRequirements func) Err ''Error''
          \<and> func_hasThrows func \<and> func_isMutating func
      | _ \<Rightarrow> False)"

subsection \<open>The requests\<close>

definition Id_remoteCall :: Identifier where "Id_remoteCall = ''remoteCall''"
definition Id_remoteCallVoid :: Identifier where "Id_remoteCallVoid = ''remoteCallVoid''"
definition Id_recordArgument :: Identifier where "Id_recordArgument = ''recordArgument''"
definition Id_recordReturnType :: Identifier where "Id_recordReturnType = ''recordReturnType''"
definition Id_recordErrorType :: Identifier where "Id_recordErrorType = ''recordErrorType''"
definition Id_decodeNextArgument :: Identifier where
  "Id_decodeNextArgument = ''decodeNextArgument''"
definition Id_actorSystem :: Identifier where "Id_actorSystem = ''actorSystem''"
definition Id_id :: Identifier where "Id_id = ''id''"

definition GetDistributedActorSystemRemoteCallFunctionRequest_evaluate ::
  "ASTContext \<Rightarrow> NominalTypeDecl \<Rightarrow> bool \<Rightarrow> AbstractFunctionDecl option \<times> Diag list" where
  "GetDistributedActorSystemRemoteCallFunctionRequest_evaluate C decl isVoidReturn =
     (let callId = (if isVoidReturn then Id_remoteCallVoid else Id_remoteCall)
      in findDistributedAdHocRequirement C decl callId
           (\<lambda>func. isDistributedActorSystemRemoteCall decl func isVoidReturn))"

definition GetDistributedTargetInvocationEncoderRecordArgumentFunctionRequest_evaluate ::
  "ASTContext \<Rightarrow> NominalTypeDecl \<Rightarrow> AbstractFunctionDecl option \<times> Diag list" where
  "GetDistributedTargetInvocationEncoderRecordArgumentFunctionRequest_evaluate C decl =
     findDistributedAdHocRequirement C decl Id_recordArgument
       (\<lambda>func. isDistributedTargetInvocationEncoderRecordArgument decl func)"

definition GetDistributedTargetInvocationEncoderRecordReturnTypeFunctionRequest_evaluate ::
  "ASTContext \<Rightarrow> NominalTypeDecl \<Rightarrow> AbstractFunctionDecl option \<times> Diag list" where
  "GetDistributedTargetInvocationEncoderRecordReturnTypeFunctionRequest_evaluate C decl =
     findDistributedAdHocRequirement C decl Id_recordReturnType
       (\<lambda>func. isDistributedTargetInvocationEncoderRecordReturnType decl func)"

definition GetDistributedTargetInvocationEncoderRecordErrorTypeFunctionRequest_evaluate ::
  "ASTContext \<Rightarrow> NominalTypeDecl \<Rightarrow> AbstractFunctionDecl option \<times> Diag list" where
  "GetDistributedTargetInvocationEncoderRecordErrorTypeFunctionRequest_evaluate C decl =
     findDistributedAdHocRequirement C decl Id_recordErrorType
       (\<lambda>func. isDistributedTargetInvocationEncoderRecordErrorType decl func)"

section \<open>The ad-hoc requirements of a conformance\<close>

text \<open>The error and the note for a requirement no member implements; the note carries the
  expected signature, which is fixed by the name of the requirement.\<close>

definition diagnoseMissingAdHocRequirement :: "NominalTypeDecl \<Rightarrow> Identifier \<Rightarrow> Diag list" where
  "diagnoseMissingAdHocRequirement decl identifier =
     [distributed_actor_system_conformance_missing_adhoc_requirement
        (nominal_getDescriptiveKind decl) (nominal_getName decl) identifier,
      note_distributed_actor_system_conformance_missing_adhoc_requirement
        (nominal_getName decl) identifier]"

definition isSpecificProtocol :: "ASTContext \<Rightarrow> ProtocolDecl \<Rightarrow> KnownProtocolKind \<Rightarrow> bool" where
  "isSpecificProtocol C Proto kind = (ctx_getProtocol C kind = Some Proto)"

text \<open>The two steps that \<^verbatim>\<open>checkDistributedActorSystemAdHocProtocolRequirements\<close> takes
  for a call operation: resolve it, diagnose it when it is missing and \<^verbatim>\<open>diagnose\<close> is
  set, and check its access. The first component is whether
  \<^verbatim>\<open>anyMissingAdHocRequirements\<close> was set.\<close>

definition checkRemoteCallRequirement ::
  "ASTContext \<Rightarrow> ProtocolDecl \<Rightarrow> NominalTypeDecl \<Rightarrow> bool \<Rightarrow> bool \<Rightarrow> bool \<times> Diag list" where
  "checkRemoteCallRequirement C systemProto decl isVoidReturn diagnose =
     (case GetDistributedActorSystemRemoteCallFunctionRequest_evaluate C decl isVoidReturn of
        (remoteCallDecl, ds0) \<Rightarrow>
          let missing = (remoteCallDecl = None \<and> diagnose);
              ds1 = (if missing
                     then diagnoseMissingAdHocRequirement decl
                            (if isVoidReturn then Id_remoteCallVoid else Id_remoteCall)
                     else [])
          in case checkAdHocRequirementAccessControl decl systemProto remoteCallDecl of
               (inaccessible, ds2) \<Rightarrow> (missing \<or> inaccessible, ds0 @ ds1 @ ds2))"

text \<open>A recording operation of the encoder is diagnosed whenever it does not resolve.\<close>

definition checkRecordRequirement ::
  "NominalTypeDecl \<Rightarrow> Identifier \<Rightarrow> AbstractFunctionDecl option \<times> Diag list \<Rightarrow> bool \<times> Diag list" where
  "checkRecordRequirement decl identifier resolved =
     (case resolved of
        (None, ds0) \<Rightarrow> (True, ds0 @ diagnoseMissingAdHocRequirement decl identifier)
      | (Some f, ds0) \<Rightarrow> (False, ds0))"

definition checkDistributedActorSystemAdHocProtocolRequirements ::
  "ASTContext \<Rightarrow> ProtocolDecl \<Rightarrow> NominalTypeDecl \<Rightarrow> bool \<Rightarrow> bool \<times> Diag list" where
  "checkDistributedActorSystemAdHocProtocolRequirements C Proto decl diagnose =
     (if isSpecificProtocol C Proto DistributedActorSystem then
        (case checkRemoteCallRequirement C Proto decl False diagnose of
           (m1, ds1) \<Rightarrow>
             (case checkRemoteCallRequirement C Proto decl True diagnose of
                (m2, ds2) \<Rightarrow> (m1 \<or> m2, ds1 @ ds2)))
      else if isSpecificProtocol C Proto DistributedTargetInvocationEncoder then
        (case checkRecordRequirement decl Id_recordArgument
                (GetDistributedTargetInvocationEncoderRecordArgumentFunctionRequest_evaluate C decl) of
           (m1, ds1) \<Rightarrow>
             (case checkRecordRequirement decl Id_recordErrorType
                     (GetDistributedTargetInvocationEncoderRecordErrorTypeFunctionRequest_evaluate C decl) of
                (m2, ds2) \<Rightarrow>
                  (case checkRecordRequirement decl Id_recordReturnType
                          (GetDistributedTargetInvocationEncoderRecordReturnTypeFunctionRequest_evaluate C decl) of
                     (m3, ds3) \<Rightarrow> (m1 \<or> m2 \<or> m3, ds1 @ ds2 @ ds3))))
      else (False, []))"

section \<open>Distributed functions and properties\<close>

text \<open>The loop of \<^verbatim>\<open>checkDistributedTargetResultType\<close> over the serialization
  requirements: it returns true at the first protocol the result type does not conform to
  only inside \<^verbatim>\<open>if (diagnose)\<close>; otherwise it goes on to the next protocol.\<close>

fun resultTypeReqLoop ::
  "ASTContext \<Rightarrow> Type \<Rightarrow> Identifier \<Rightarrow> bool \<Rightarrow> bool \<Rightarrow> ProtocolDecl list \<Rightarrow> bool \<times> Diag list" where
  "resultTypeReqLoop C resultType name isCodableRequirement diagnose [] = (False, [])"
| "resultTypeReqLoop C resultType name isCodableRequirement diagnose (serializationReq # rest) =
     (if \<not> ctx_conformsToProtocol C resultType serializationReq then
        (if diagnose then
           (True, [distributed_actor_target_result_not_codable resultType name
                     (if isCodableRequirement then ''Codable'' else serializationReq)])
         else resultTypeReqLoop C resultType name isCodableRequirement diagnose rest)
      else resultTypeReqLoop C resultType name isCodableRequirement diagnose rest)"

definition checkDistributedTargetResultType ::
  "ASTContext \<Rightarrow> ValueDecl \<Rightarrow> ProtocolDecl list \<Rightarrow> bool \<Rightarrow> Trap + bool \<times> Diag list" where
  "checkDistributedTargetResultType C valueDecl serializationRequirements diagnose =
     (case (case valueDecl of
              FuncDeclV func \<Rightarrow> Some (func_getResultInterfaceType func)
            | VarDeclV var \<Rightarrow> Some (var_getInterfaceType var)
            | _ \<Rightarrow> None) of
        None \<Rightarrow> Inl (Unreachable ''Unsupported distributed target'')
      | Some resultType \<Rightarrow>
          if isVoid resultType then Inr (False, [])
          else Inr (resultTypeReqLoop C resultType (value_getBaseName valueDecl)
                      (checkDistributedSerializationRequirementIsExactlyCodable C
                         serializationRequirements)
                      diagnose serializationRequirements))"

text \<open>The declaration context of a distributed function: an extension, with the answer of
  \<^verbatim>\<open>extractDistributedSerializationRequirements\<close> for its generic requirements, a class,
  or anything else.\<close>

datatype DeclContext =
    ExtensionDeclC "ProtocolDecl list"
  | ClassDeclC NominalTypeDecl
  | OtherDeclC

definition serializationRequirementsOfContext ::
  "ASTContext \<Rightarrow> DeclContext \<Rightarrow> Trap + ProtocolDecl list" where
  "serializationRequirementsOfContext C declContext =
     (case declContext of
        ExtensionDeclC extracted \<Rightarrow> Inr extracted
      | ClassDeclC actor \<Rightarrow>
          getDistributedSerializationRequirementProtocols actor (ctx_getProtocol C DistributedActor)
      | OtherDeclC \<Rightarrow> Inr [])"

text \<open>The inner loop of \<^verbatim>\<open>checkDistributedFunction\<close>: the first protocol the parameter
  type does not conform to makes the function return true, with a diagnostic when
  \<^verbatim>\<open>diagnose\<close> is set.\<close>

fun paramReqLoop ::
  "ASTContext \<Rightarrow> ParamDecl \<Rightarrow> bool \<Rightarrow> bool \<Rightarrow> ProtocolDecl list \<Rightarrow> bool \<times> Diag list" where
  "paramReqLoop C param serializationRequirementIsCodable diagnose [] = (False, [])"
| "paramReqLoop C param serializationRequirementIsCodable diagnose (req # rest) =
     (if \<not> ctx_conformsToProtocol C (param_getInterfaceType param) req then
        (True,
         if diagnose
         then [distributed_actor_func_param_not_codable (param_getArgumentName param)
                 (param_getInterfaceType param)
                 (if serializationRequirementIsCodable then ''Codable'' else req)]
         else [])
      else paramReqLoop C param serializationRequirementIsCodable diagnose rest)"

text \<open>The outer loop over the parameters. The first component is whether the function
  returned true from inside the loop.\<close>

fun paramLoop ::
  "ASTContext \<Rightarrow> Identifier \<Rightarrow> ProtocolDecl list \<Rightarrow> bool \<Rightarrow> bool \<Rightarrow> ParamDecl list
     \<Rightarrow> bool \<times> Diag list" where
  "paramLoop C funcName serializationRequirements isCodable diagnose [] = (False, [])"
| "paramLoop C funcName serializationRequirements isCodable diagnose (param # params) =
     (case paramReqLoop C param isCodable diagnose serializationRequirements of
        (True, ds) \<Rightarrow> (True, ds)
      | (False, ds) \<Rightarrow>
          if param_isInOut param
          then (True, ds @ [distributed_actor_func_inout (param_getName param) funcName])
          else
            (let vs = (if param_isVariadic param
                       then [distributed_actor_func_variadic (param_getName param) funcName]
                       else [])
             in case paramLoop C funcName serializationRequirements isCodable diagnose params of
                  (returned, ds') \<Rightarrow> (returned, ds @ vs @ ds')))"

definition checkDistributedFunction ::
  "ASTContext \<Rightarrow> DeclContext \<Rightarrow> AbstractFunctionDecl \<Rightarrow> bool \<Rightarrow> Trap + bool \<times> Diag list" where
  "checkDistributedFunction C declContext func diagnose =
     (if \<not> func_isDistributed func then Inl (AssertionFailed ''func->isDistributed()'')
      else
        case serializationRequirementsOfContext C declContext of
          Inl trap \<Rightarrow> Inl trap
        | Inr serializationRequirements \<Rightarrow>
            (case paramLoop C (func_getName func) serializationRequirements
                    (checkDistributedSerializationRequirementIsExactlyCodable C
                       serializationRequirements)
                    diagnose (func_getParameters func) of
               (True, ds) \<Rightarrow> Inr (True, ds)
             | (False, ds) \<Rightarrow>
                 (case checkDistributedTargetResultType C (FuncDeclV func)
                         serializationRequirements diagnose of
                    Inl trap \<Rightarrow> Inl trap
                  | Inr (failed, ds') \<Rightarrow> Inr (failed, ds @ ds'))))"

definition checkDistributedActorProperty ::
  "ASTContext \<Rightarrow> NominalTypeDecl \<Rightarrow> VarDecl \<Rightarrow> bool \<Rightarrow> Trap + bool \<times> Diag list" where
  "checkDistributedActorProperty C selfNominal var diagnose =
     (if var_isStatic var
      then Inr (True, [distributed_property_cannot_be_static (var_getName var)])
      else if var_isLet var \<or> var_hasStorageOrWrapsStorage var
      then Inr (True, [distributed_property_can_only_be_computed (var_getName var)])
      else if var_getWriteImpl var \<noteq> Immutable
      then Inr (True, [distributed_property_can_only_be_computed_get_only (var_getName var)])
      else
        case getDistributedSerializationRequirementProtocols selfNominal
               (ctx_getProtocol C DistributedActor) of
          Inl trap \<Rightarrow> Inl trap
        | Inr serializationRequirements \<Rightarrow>
            checkDistributedTargetResultType C (VarDeclV var) serializationRequirements diagnose)"

fun checkDistributedActorProperties_loop :: "ValueDecl list \<Rightarrow> Diag list" where
  "checkDistributedActorProperties_loop [] = []"
| "checkDistributedActorProperties_loop (member # members) =
     (case dyn_cast_VarDecl member of
        Some prop \<Rightarrow>
          if var_isSynthesized prop then checkDistributedActorProperties_loop members
          else (if var_getName prop = Id_actorSystem \<or> var_getName prop = Id_id
                then [distributed_actor_user_defined_special_property (var_getName prop)]
                else []) @ checkDistributedActorProperties_loop members
      | None \<Rightarrow> checkDistributedActorProperties_loop members)"

definition checkDistributedActorProperties :: "NominalTypeDecl \<Rightarrow> Diag list" where
  "checkDistributedActorProperties decl =
     checkDistributedActorProperties_loop (nominal_getMembers decl)"

fun checkConstructors_loop :: "NominalTypeDecl \<Rightarrow> ValueDecl list \<Rightarrow> Diag list" where
  "checkConstructors_loop decl [] = []"
| "checkConstructors_loop decl (member # members) =
     (case dyn_cast_ConstructorDecl member of
        Some ctor \<Rightarrow> checkDistributedActorConstructor decl ctor @ checkConstructors_loop decl members
      | None \<Rightarrow> checkConstructors_loop decl members)"

text \<open>\<^verbatim>\<open>TypeChecker::checkDistributedActor\<close>; \<open>None\<close> is the null class. The two calls
  that synthesize the default initializer and the \<^verbatim>\<open>id\<close> property emit nothing and
  are left out.\<close>

definition checkDistributedActor :: "ASTContext \<Rightarrow> NominalTypeDecl option \<Rightarrow> Diag list" where
  "checkDistributedActor C declOpt =
     (case declOpt of
        None \<Rightarrow> []
      | Some decl \<Rightarrow>
          (case ensureDistributedModuleLoaded C of
             (False, ds) \<Rightarrow> ds
           | (True, ds) \<Rightarrow>
               ds @ checkConstructors_loop decl (nominal_getMembers decl)
                  @ checkDistributedActorProperties decl))"

section \<open>The argument decoding method of an actor\<close>

text \<open>The \<^verbatim>\<open>count_if\<close> over the generic requirements of a candidate.\<close>

definition numSerializationReqsCovered ::
  "ProtocolDecl list \<Rightarrow> Type \<Rightarrow> Requirement list \<Rightarrow> nat" where
  "numSerializationReqsCovered serializationReqs paramTy requirements =
     length (filter
       (\<lambda>requirement.
          if \<not> (req_getFirstType requirement = paramTy \<and> req_getKind requirement = Conformance)
          then False
          else (case req_getProtocolDecl requirement of
                  Some p \<Rightarrow> p \<in> set serializationReqs
                | None \<Rightarrow> False))
       requirements)"

text \<open>The loop over the looked-up members; \<open>candidates\<close> is the vector it pushes to. The
  source asks the generic parameter list for its size without testing the pointer, so a
  member that is not generic and reaches that line stops the compiler there.\<close>

fun decodeCandidatesLoop ::
  "ProtocolDecl list \<Rightarrow> ValueDecl list \<Rightarrow> AbstractFunctionDecl list
     \<Rightarrow> Trap + AbstractFunctionDecl list" where
  "decodeCandidatesLoop serializationReqs [] candidates = Inr candidates"
| "decodeCandidatesLoop serializationReqs (member # members) candidates =
     (case dyn_cast_FuncDecl member of
        None \<Rightarrow> decodeCandidatesLoop serializationReqs members candidates
      | Some FD \<Rightarrow>
          if func_hasAsync FD \<or> \<not> func_hasThrows FD
          then decodeCandidatesLoop serializationReqs members candidates
          else if length (func_getParameters FD) \<noteq> 0
          then decodeCandidatesLoop serializationReqs members candidates
          else (case func_getGenericParams FD of
                  None \<Rightarrow> Inl (NullDereference ''genericParamList'')
                | Some genericParamList \<Rightarrow>
                    (case genericParamList of
                       [genericParam] \<Rightarrow>
                         (let paramTy = getMetatypeInstanceType genericParam
                          in if func_getResultInterfaceType FD \<noteq> paramTy
                             then decodeCandidatesLoop serializationReqs members candidates
                             else if numSerializationReqsCovered serializationReqs paramTy
                                       (func_getGenericRequirements FD)
                                     = length serializationReqs
                             then decodeCandidatesLoop serializationReqs members
                                    (candidates @ [FD])
                             else decodeCandidatesLoop serializationReqs members candidates)
                     | _ \<Rightarrow> decodeCandidatesLoop serializationReqs members candidates)))"

text \<open>\<^verbatim>\<open>GetDistributedActorArgumentDecodingMethodRequest::evaluate\<close>. The two assertions
  are branches that stop the compiler.\<close>

definition GetDistributedActorArgumentDecodingMethodRequest_evaluate ::
  "ASTContext \<Rightarrow> NominalTypeDecl \<Rightarrow> Trap + AbstractFunctionDecl" where
  "GetDistributedActorArgumentDecodingMethodRequest_evaluate ctx actor =
     (case ctx_getDistributedActorInvocationDecoder ctx actor of
        None \<Rightarrow> Inl (AssertionFailed ''decoder'')
      | Some decoder \<Rightarrow>
          (let decoderTy = getMetatypeInstanceType
                             (MetatypeType (nominal_getDeclaredInterfaceType decoder));
               members = ctx_lookupMember ctx decoderTy Id_decodeNextArgument
           in (case getDistributedSerializationRequirementProtocols actor
                      (ctx_getProtocol ctx DistributedActor) of
                 Inl trap \<Rightarrow> Inl trap
               | Inr serializationReqs \<Rightarrow>
                   (case decodeCandidatesLoop serializationReqs members [] of
                      Inl trap \<Rightarrow> Inl trap
                    | Inr [FD] \<Rightarrow> Inr FD
                    | Inr _ \<Rightarrow> Inl (AssertionFailed ''candidates.size() == 1'')))))"

section \<open>Notions the properties are stated with\<close>

text \<open>Whether the loop of the decoding request accepts a member: the loop run on that
  member alone pushes it.\<close>

definition decodeCandidateAccepted :: "ProtocolDecl list \<Rightarrow> ValueDecl \<Rightarrow> bool" where
  "decodeCandidateAccepted serializationReqs member =
     (case decodeCandidatesLoop serializationReqs [member] [] of
        Inl trap \<Rightarrow> False
      | Inr candidates \<Rightarrow> candidates \<noteq> [])"

text \<open>Whether the loop stops the compiler at a member: a function that does not suspend,
  may fail and has no parameter, and whose generic parameter list is null.\<close>

definition decodeDereferencesNull :: "ValueDecl \<Rightarrow> bool" where
  "decodeDereferencesNull member =
     (case dyn_cast_FuncDecl member of
        None \<Rightarrow> False
      | Some FD \<Rightarrow>
          \<not> func_hasAsync FD \<and> func_hasThrows FD \<and> func_getParameters FD = []
          \<and> func_getGenericParams FD = None)"

text \<open>The shape the loop asks of a candidate before it counts requirements: a function that
  does not suspend, may fail, has no parameter and a single generic parameter, and returns
  that generic parameter. The second argument is the type of the generic parameter.\<close>

definition decodeShapeValid :: "AbstractFunctionDecl \<Rightarrow> Type \<Rightarrow> bool" where
  "decodeShapeValid FD paramTy =
     (\<not> func_hasAsync FD \<and> func_hasThrows FD \<and> func_getParameters FD = []
      \<and> (case func_getGenericParams FD of
            Some [genericParam] \<Rightarrow> paramTy = getMetatypeInstanceType genericParam
          | _ \<Rightarrow> False)
      \<and> func_getResultInterfaceType FD = paramTy)"

text \<open>The next-argument-decoding predicate in the words of the specification: zero value
  parameters, one generic parameter, returns that parameter, may fail, and the parameter
  conforms to every protocol of the serialization requirement.\<close>

definition spec_nextArgumentDecodingPredicate ::
  "ProtocolDecl list \<Rightarrow> AbstractFunctionDecl \<Rightarrow> bool" where
  "spec_nextArgumentDecodingPredicate S FD =
     (func_getParameters FD = []
      \<and> (case func_getGenericParams FD of
            Some [genericParam] \<Rightarrow>
              func_getResultInterfaceType FD = getMetatypeInstanceType genericParam
              \<and> list_all (hasConformanceReq (func_getGenericRequirements FD)
                            (getMetatypeInstanceType genericParam)) S
          | _ \<Rightarrow> False)
      \<and> func_hasThrows FD)"

text \<open>The functions among looked-up members.\<close>

definition funcDeclsOf :: "ValueDecl list \<Rightarrow> AbstractFunctionDecl list" where
  "funcDeclsOf members = List.map_filter dyn_cast_FuncDecl members"

text \<open>Whether a function has the return type its call template asks for: the third generic
  parameter for the value-returning operation, no return value for the void-returning
  one.\<close>

definition hasTemplateReturnType :: "AbstractFunctionDecl \<Rightarrow> bool \<Rightarrow> bool" where
  "hasTemplateReturnType func isVoidReturn =
     (if isVoidReturn then isVoid (func_getResultInterfaceType func)
      else (case genericParamTypes func of
              [Act, Err, Res] \<Rightarrow> func_getResultInterfaceType func = Res
            | _ \<Rightarrow> False))"

text \<open>The diagnostics that report a type not conforming to the serialization requirement,
  and the diagnostics with which \<^verbatim>\<open>checkDistributedFunction\<close> returns true.\<close>

fun isConformanceDiag :: "Diag \<Rightarrow> bool" where
  "isConformanceDiag (distributed_actor_func_param_not_codable n t s) = True"
| "isConformanceDiag (distributed_actor_target_result_not_codable t n s) = True"
| "isConformanceDiag d = False"

fun isFailureDiag :: "Diag \<Rightarrow> bool" where
  "isFailureDiag (distributed_actor_func_param_not_codable n t s) = True"
| "isFailureDiag (distributed_actor_target_result_not_codable t n s) = True"
| "isFailureDiag (distributed_actor_func_inout n f) = True"
| "isFailureDiag d = False"

text \<open>The error and the note that report a requirement no member implements.\<close>

fun isMissingWitnessDiag :: "Diag \<Rightarrow> bool" where
  "isMissingWitnessDiag
     (distributed_actor_system_conformance_missing_adhoc_requirement k n i) = True"
| "isMissingWitnessDiag
     (note_distributed_actor_system_conformance_missing_adhoc_requirement n i) = True"
| "isMissingWitnessDiag d = False"

text \<open>The first protocol of the serialization requirement, in the order the loops visit
  it, that a type does not conform to.\<close>

definition firstFailingReq :: "ASTContext \<Rightarrow> Type \<Rightarrow> ProtocolDecl list \<Rightarrow> ProtocolDecl option" where
  "firstFailingReq C t serializationRequirements =
     find (\<lambda>req. \<not> ctx_conformsToProtocol C t req) serializationRequirements"

text \<open>The name a conformance diagnostic suggests: \<^verbatim>\<open>Codable\<close> when the requirement is
  exactly that pair, the failing protocol otherwise.\<close>

definition conformanceToSuggest :: "ASTContext \<Rightarrow> ProtocolDecl list \<Rightarrow> ProtocolDecl \<Rightarrow> string" where
  "conformanceToSuggest C serializationRequirements req =
     (if checkDistributedSerializationRequirementIsExactlyCodable C serializationRequirements
      then ''Codable'' else req)"

text \<open>The diagnostics for the variadic parameters of a list.\<close>

definition variadicDiags :: "Identifier \<Rightarrow> ParamDecl list \<Rightarrow> Diag list" where
  "variadicDiags funcName params =
     map (\<lambda>p. distributed_actor_func_variadic (param_getName p) funcName)
       (filter param_isVariadic params)"

definition paramConforms :: "ASTContext \<Rightarrow> ProtocolDecl list \<Rightarrow> ParamDecl \<Rightarrow> bool" where
  "paramConforms C serializationRequirements param =
     list_all (ctx_conformsToProtocol C (param_getInterfaceType param)) serializationRequirements"

text \<open>The vector \<^verbatim>\<open>transportParams\<close> of \<^verbatim>\<open>checkDistributedActorConstructor\<close>: the
  parameters of the initializer whose type is the actor system type of the actor.\<close>

definition transportParams :: "NominalTypeDecl \<Rightarrow> AbstractFunctionDecl \<Rightarrow> ParamDecl list" where
  "transportParams decl ctor =
     filter (\<lambda>param. param_getInterfaceType param = nominal_getDistributedActorSystemType decl)
       (func_getParameters ctor)"

text \<open>The flag a check returned, when it returned.\<close>

fun returnedFlag :: "Trap + bool \<times> Diag list \<Rightarrow> bool option" where
  "returnedFlag (Inl trap) = None"
| "returnedFlag (Inr (flag, ds)) = Some flag"

section \<open>Declarations of the test suite\<close>

text \<open>The declarations below are those of the test file for the ad-hoc requirements of
  actor systems, and small distributed actors in their style.\<close>

definition conformanceReq :: "Type \<Rightarrow> ProtocolDecl \<Rightarrow> Requirement" where
  "conformanceReq t p =
     \<lparr>req_getKind = Conformance, req_getFirstType = t, req_getSecondType = ProtocolType p\<rparr>"

definition sameTypeReq :: "Type \<Rightarrow> Type \<Rightarrow> Requirement" where
  "sameTypeReq t u = \<lparr>req_getKind = SameType, req_getFirstType = t, req_getSecondType = u\<rparr>"

definition mkParam :: "Identifier \<Rightarrow> Type \<Rightarrow> ParamDecl" where
  "mkParam label t =
     \<lparr>param_getArgumentName = label, param_getName = label, param_getInterfaceType = t,
      param_isInOut = False, param_isVariadic = False\<rparr>"

definition mkFunc :: "Identifier \<Rightarrow> Type list \<Rightarrow> Requirement list \<Rightarrow> ParamDecl list \<Rightarrow> Type
    \<Rightarrow> AbstractFunctionDecl" where
  "mkFunc name generics reqs params result =
     \<lparr>func_getName = name,
      func_getGenericParams = (if generics = [] then None else Some (map MetatypeType generics)),
      func_getGenericRequirements = reqs, func_getParameters = params,
      func_hasAsync = False, func_hasThrows = True, func_getResultInterfaceType = result,
      func_getEffectiveAccess = Internal, func_isMutating = False,
      func_isDistributed = False, func_isDesignatedInit = False\<rparr>"

definition mkNominal :: "string \<Rightarrow> Identifier \<Rightarrow> AccessLevel \<Rightarrow> Type \<Rightarrow> ValueDecl list
    \<Rightarrow> NominalTypeDecl" where
  "mkNominal kind name access requirement members =
     \<lparr>nominal_getName = name, nominal_getDescriptiveKind = kind,
      nominal_getDeclaredInterfaceType = NominalType name,
      nominal_getEffectiveAccess = access, nominal_getMembers = members,
      nominal_getActorID = NominalType ''ActorAddress'',
      nominal_getSerializationRequirementType = requirement,
      nominal_isDistributedActor = False,
      nominal_getDistributedActorSystemType = NominalType ''FakeActorSystem''\<rparr>"

definition Act :: Type where "Act = GenericTypeParamType ''Act''"
definition Err :: Type where "Err = GenericTypeParamType ''Err''"
definition Res :: Type where "Res = GenericTypeParamType ''Res''"
definition Argument :: Type where "Argument = GenericTypeParamType ''Argument''"
definition Void :: Type where "Void = TupleType []"

text \<open>\<^verbatim>\<open>typealias SerializationRequirement = Codable\<close>, and
  \<^verbatim>\<open>Codable & SomeProtocol\<close>.\<close>

definition CodableType :: Type where
  "CodableType =
     ExistentialType (ProtocolCompositionType [ProtocolType ''Encodable'', ProtocolType ''Decodable''])"

definition CodableAndSomeProtocolType :: Type where
  "CodableAndSomeProtocolType =
     ExistentialType (ProtocolCompositionType
       [ProtocolCompositionType [ProtocolType ''Encodable'', ProtocolType ''Decodable''],
        ProtocolType ''SomeProtocol''])"

definition remoteCallParams :: "ParamDecl list" where
  "remoteCallParams =
     [mkParam ''on'' Act, mkParam ''target'' (NominalType ''RemoteCallTarget''),
      (mkParam ''invocation'' (NominalType ''FakeInvocationEncoder''))\<lparr>param_isInOut := True\<rparr>,
      mkParam ''throwing'' (MetatypeType Err), mkParam ''returning'' (MetatypeType Res)]"

definition remoteCallReqs :: "Requirement list" where
  "remoteCallReqs =
     [conformanceReq Act ''DistributedActor'',
      sameTypeReq (DependentMemberType Act ''ID'') (NominalType ''ActorAddress''),
      conformanceReq Err ''Error'',
      conformanceReq Res ''Encodable'', conformanceReq Res ''Decodable'']"

text \<open>The well-formed \<^verbatim>\<open>remoteCall\<close> and \<^verbatim>\<open>remoteCallVoid\<close> of
  \<^verbatim>\<open>BadRemoteCall_notPublic\<close>; they are not public.\<close>

definition remoteCall_ok :: AbstractFunctionDecl where
  "remoteCall_ok =
     (mkFunc ''remoteCall'' [Act, Err, Res] remoteCallReqs remoteCallParams Res)
       \<lparr>func_hasAsync := True\<rparr>"

definition remoteCallVoid_ok :: AbstractFunctionDecl where
  "remoteCallVoid_ok =
     (mkFunc ''remoteCallVoid'' [Act, Err] (take 3 remoteCallReqs) (take 4 remoteCallParams) Void)
       \<lparr>func_hasAsync := True\<rparr>"

definition BadRemoteCall_notPublic :: NominalTypeDecl where
  "BadRemoteCall_notPublic =
     mkNominal ''struct'' ''BadRemoteCall_notPublic'' Public CodableType
       [FuncDeclV remoteCall_ok, FuncDeclV remoteCallVoid_ok]"

text \<open>The three functions of \<^verbatim>\<open>Error_wrongReturn\<close>: a \<^verbatim>\<open>remoteCall\<close> that returns
  \<^verbatim>\<open>String\<close>, a \<^verbatim>\<open>remoteCall\<close> that returns nothing, and a \<^verbatim>\<open>remoteCallVoid\<close> that
  returns \<^verbatim>\<open>String\<close> and does not suspend.\<close>

definition remoteCall_returnsString :: AbstractFunctionDecl where
  "remoteCall_returnsString =
     remoteCall_ok\<lparr>func_getResultInterfaceType := NominalType ''String'',
                   func_getEffectiveAccess := Public\<rparr>"

definition remoteCall_returnsVoid :: AbstractFunctionDecl where
  "remoteCall_returnsVoid =
     remoteCall_ok\<lparr>func_getResultInterfaceType := Void, func_getEffectiveAccess := Public\<rparr>"

definition remoteCallVoid_returnsString :: AbstractFunctionDecl where
  "remoteCallVoid_returnsString =
     remoteCallVoid_ok\<lparr>func_getResultInterfaceType := NominalType ''String'',
                       func_hasAsync := False, func_getEffectiveAccess := Public\<rparr>"

definition Error_wrongReturn :: NominalTypeDecl where
  "Error_wrongReturn =
     mkNominal ''struct'' ''Error_wrongReturn'' Internal CodableType
       [FuncDeclV remoteCall_returnsString, FuncDeclV remoteCall_returnsVoid,
        FuncDeclV remoteCallVoid_returnsString]"

text \<open>\<^verbatim>\<open>FakeInvocationEncoder\<close> with its three recorders.\<close>

definition recordArgument_ok :: AbstractFunctionDecl where
  "recordArgument_ok =
     (mkFunc ''recordArgument'' [Argument]
        [conformanceReq Argument ''Encodable'', conformanceReq Argument ''Decodable'']
        [mkParam [] Argument] Void)\<lparr>func_isMutating := True\<rparr>"

definition recordReturnType_ok :: AbstractFunctionDecl where
  "recordReturnType_ok =
     (mkFunc ''recordReturnType'' [Res]
        [conformanceReq Res ''Encodable'', conformanceReq Res ''Decodable'']
        [mkParam [] (MetatypeType Res)] Void)\<lparr>func_isMutating := True\<rparr>"

definition recordErrorType_ok :: AbstractFunctionDecl where
  "recordErrorType_ok =
     (mkFunc ''recordErrorType'' [Err] [conformanceReq Err ''Error'']
        [mkParam [] (MetatypeType Err)] Void)\<lparr>func_isMutating := True\<rparr>"

text \<open>A public encoder with the same three recorders, which are internal.\<close>

definition PublicEncoder_internalRecorders :: NominalTypeDecl where
  "PublicEncoder_internalRecorders =
     mkNominal ''struct'' ''PublicEncoder_internalRecorders'' Public CodableType
       [FuncDeclV recordArgument_ok, FuncDeclV recordReturnType_ok,
        FuncDeclV recordErrorType_ok]"

definition FakeInvocationEncoder :: NominalTypeDecl where
  "FakeInvocationEncoder =
     mkNominal ''struct'' ''FakeInvocationEncoder'' Internal CodableType
       [FuncDeclV recordArgument_ok, FuncDeclV recordReturnType_ok,
        FuncDeclV recordErrorType_ok]"

text \<open>\<^verbatim>\<open>decodeNextArgument\<close> of \<^verbatim>\<open>FakeInvocationDecoder\<close>, a second overload that differs
  only in that it suspends, one whose generic parameter carries a further constraint, and
  one that is constrained to \<^verbatim>\<open>Encodable\<close> alone.\<close>

definition decodeNextArgument_ok :: AbstractFunctionDecl where
  "decodeNextArgument_ok =
     mkFunc ''decodeNextArgument'' [Argument]
       [conformanceReq Argument ''Encodable'', conformanceReq Argument ''Decodable'']
       [] Argument"

definition decodeNextArgument_async :: AbstractFunctionDecl where
  "decodeNextArgument_async = decodeNextArgument_ok\<lparr>func_hasAsync := True\<rparr>"

definition decodeNextArgument_extra :: AbstractFunctionDecl where
  "decodeNextArgument_extra =
     decodeNextArgument_ok\<lparr>func_getGenericRequirements :=
       [conformanceReq Argument ''Encodable'', conformanceReq Argument ''Sendable'',
        conformanceReq Argument ''Decodable'']\<rparr>"

text \<open>An overload \<^verbatim>\<open>decodeNextArgument() throws -> Int\<close>, which is not generic.\<close>

definition decodeNextArgument_nongeneric :: AbstractFunctionDecl where
  "decodeNextArgument_nongeneric =
     mkFunc ''decodeNextArgument'' [] [] [] (NominalType ''Int'')"

definition decodeNextArgument_fewer :: AbstractFunctionDecl where
  "decodeNextArgument_fewer =
     decodeNextArgument_ok\<lparr>func_getGenericRequirements :=
       [conformanceReq Argument ''Encodable'']\<rparr>"

definition FakeInvocationDecoder :: NominalTypeDecl where
  "FakeInvocationDecoder =
     mkNominal ''class'' ''FakeInvocationDecoder'' Internal CodableType
       [FuncDeclV decodeNextArgument_ok]"

text \<open>A distributed actor whose serialization requirement is \<^verbatim>\<open>Codable\<close>, one whose
  requirement does not resolve, and their members.\<close>

definition Greeter :: NominalTypeDecl where
  "Greeter =
     (mkNominal ''class'' ''Greeter'' Internal CodableType [])
       \<lparr>nominal_isDistributedActor := True\<rparr>"

definition BrokenGreeter :: NominalTypeDecl where
  "BrokenGreeter = Greeter\<lparr>nominal_getSerializationRequirementType := ErrorType\<rparr>"

definition mkDistributedFunc :: "Identifier \<Rightarrow> ParamDecl list \<Rightarrow> Type \<Rightarrow> AbstractFunctionDecl" where
  "mkDistributedFunc name params result =
     (mkFunc name [] [] params result)\<lparr>func_hasThrows := False, func_isDistributed := True\<rparr>"

definition twoBadParams :: AbstractFunctionDecl where
  "twoBadParams =
     mkDistributedFunc ''twoBadParams''
       [mkParam ''a'' (NominalType ''NotCodable''), mkParam ''b'' (NominalType ''AlsoNotCodable'')]
       (NominalType ''NotCodable'')"

text \<open>A function \<^verbatim>\<open>(a: inout Int, b: NotCodable)\<close>.\<close>

definition inoutThenBad :: AbstractFunctionDecl where
  "inoutThenBad =
     mkDistributedFunc ''inoutThenBad''
       [(mkParam ''a'' (NominalType ''Int''))\<lparr>param_isInOut := True\<rparr>,
        mkParam ''b'' (NominalType ''NotCodable'')]
       Void"

definition inoutParam :: AbstractFunctionDecl where
  "inoutParam =
     mkDistributedFunc ''inoutParam''
       [mkParam ''a'' (NominalType ''String''),
        (mkParam ''b'' (NominalType ''Int''))\<lparr>param_isInOut := True\<rparr>]
       Void"

definition variadicParam :: AbstractFunctionDecl where
  "variadicParam =
     mkDistributedFunc ''variadicParam''
       [(mkParam ''a'' (NominalType ''String''))\<lparr>param_isVariadic := True\<rparr>,
        mkParam ''b'' (NominalType ''Int'')]
       (NominalType ''String'')"

definition badResult :: AbstractFunctionDecl where
  "badResult =
     mkDistributedFunc ''badResult'' [mkParam ''a'' (NominalType ''String'')]
       (NominalType ''NotCodable'')"

definition mkInit :: "bool \<Rightarrow> ParamDecl list \<Rightarrow> AbstractFunctionDecl" where
  "mkInit designated params =
     (mkFunc ''init'' [] [] params Void)
       \<lparr>func_hasThrows := False, func_isDesignatedInit := designated\<rparr>"

definition systemParam :: "Identifier \<Rightarrow> ParamDecl" where
  "systemParam label = mkParam label (NominalType ''FakeActorSystem'')"

text \<open>A context in which \<^verbatim>\<open>Distributed\<close> is loaded: every type but the two
  \<^verbatim>\<open>NotCodable\<close> ones conforms to every protocol, the invocation decoder of every actor
  is \<^verbatim>\<open>FakeInvocationDecoder\<close>, and member lookup in a type finds the two overloads of
  \<^verbatim>\<open>decodeNextArgument\<close>. The second context is the same without the module.\<close>

definition knownProtocolName :: "KnownProtocolKind \<Rightarrow> ProtocolDecl" where
  "knownProtocolName kind =
     (case kind of
        DistributedActor \<Rightarrow> ''DistributedActor''
      | DistributedActorSystem \<Rightarrow> ''DistributedActorSystem''
      | DistributedTargetInvocationEncoder \<Rightarrow> ''DistributedTargetInvocationEncoder''
      | DistributedTargetInvocationDecoder \<Rightarrow> ''DistributedTargetInvocationDecoder''
      | DistributedTargetInvocationResultHandler \<Rightarrow> ''DistributedTargetInvocationResultHandler''
      | Encodable \<Rightarrow> ''Encodable''
      | Decodable \<Rightarrow> ''Decodable'')"

definition testContext :: ASTContext where
  "testContext =
     \<lparr>ctx_DistributedLoaded = True,
      ctx_getProtocol = (\<lambda>kind. Some (knownProtocolName kind)),
      ctx_conformsToProtocol =
        (\<lambda>t p. t \<noteq> NominalType ''NotCodable'' \<and> t \<noteq> NominalType ''AlsoNotCodable''),
      ctx_getDistributedActorInvocationDecoder = (\<lambda>actor. Some FakeInvocationDecoder),
      ctx_lookupMember =
        (\<lambda>t name. if name = ''decodeNextArgument''
                  then [FuncDeclV decodeNextArgument_ok, FuncDeclV decodeNextArgument_async]
                  else [])\<rparr>"

definition testContext_notLoaded :: ASTContext where
  "testContext_notLoaded = testContext\<lparr>ctx_DistributedLoaded := False\<rparr>"

text \<open>A context in which member lookup finds two overloads of \<^verbatim>\<open>decodeNextArgument\<close>
  that do not suspend.\<close>

definition testContext_tie :: ASTContext where
  "testContext_tie =
     testContext\<lparr>ctx_lookupMember :=
       (\<lambda>t name. [FuncDeclV decodeNextArgument_ok, FuncDeclV decodeNextArgument_extra])\<rparr>"

text \<open>The same with an overload that is not generic found first.\<close>

definition testContext_nongeneric :: ASTContext where
  "testContext_nongeneric =
     testContext\<lparr>ctx_lookupMember :=
       (\<lambda>t name. [FuncDeclV decodeNextArgument_nongeneric, FuncDeclV decodeNextArgument_ok,
                  FuncDeclV decodeNextArgument_extra])\<rparr>"

section \<open>Properties\<close>

subsection \<open>Auxiliary facts\<close>

lemmas test_decl_defs = Greeter_def BrokenGreeter_def mkNominal_def mkInit_def mkFunc_def
  systemParam_def mkParam_def Void_def

lemma flattenDistributedSerializationTypeToRequiredProtocols_distinct:
  "distinct (flattenDistributedSerializationTypeToRequiredProtocols t)"
  by (induction t rule: flattenDistributedSerializationTypeToRequiredProtocols.induct) simp_all

lemma getDistributedSerializationRequirementProtocols_distinct:
  "getDistributedSerializationRequirementProtocols nominal protocol = Inr S \<Longrightarrow> distinct S"
  by (auto simp: getDistributedSerializationRequirementProtocols_def Let_def
        flattenDistributedSerializationTypeToRequiredProtocols_distinct
        split: option.splits if_splits Type.splits)

lemma countTransportParams_filter:
  "countTransportParams ty ps n = n + int (length (filter (\<lambda>p. param_getInterfaceType p = ty) ps))"
  by (induction ps arbitrary: n) auto

lemma findFirstMatching_Some:
  "findFirstMatching matchFn vs = Some func \<Longrightarrow>
     matchFn func \<and> (\<exists>v \<in> set vs. dyn_cast_AbstractFunctionDecl v = Some func)"
  by (induction vs) (auto split: option.splits if_splits)

lemma findFirstMatching_None:
  "(\<And>v func. v \<in> set vs \<Longrightarrow> dyn_cast_AbstractFunctionDecl v = Some func \<Longrightarrow> \<not> matchFn func)
     \<Longrightarrow> findFirstMatching matchFn vs = None"
  by (induction vs) (auto split: option.splits)

lemma findDistributedAdHocRequirement_Some:
  "findDistributedAdHocRequirement C decl identifier matchFn = (Some func, ds) \<Longrightarrow>
     matchFn func \<and> ds = [] \<and> ctx_DistributedLoaded C
     \<and> (\<exists>v \<in> set (lookupDirect decl identifier). dyn_cast_AbstractFunctionDecl v = Some func)"
  by (auto simp: findDistributedAdHocRequirement_def split: if_splits
        dest: findFirstMatching_Some)

lemma findDistributedAdHocRequirement_snd:
  "snd (findDistributedAdHocRequirement C decl identifier matchFn) = []"
  by (simp add: findDistributedAdHocRequirement_def)

lemmas resolution_defs =
  GetDistributedActorSystemRemoteCallFunctionRequest_evaluate_def
  GetDistributedTargetInvocationEncoderRecordArgumentFunctionRequest_evaluate_def
  GetDistributedTargetInvocationEncoderRecordReturnTypeFunctionRequest_evaluate_def
  GetDistributedTargetInvocationEncoderRecordErrorTypeFunctionRequest_evaluate_def
  findDistributedAdHocRequirement_def lookupDirect_def
  isDistributedActorSystemRemoteCall_def genericParamTypes_def
  isDistributedTargetInvocationEncoderRecordArgument_def
  isDistributedTargetInvocationEncoderRecordReturnType_def
  isDistributedTargetInvocationEncoderRecordErrorType_def
  hasConformanceReq_def hasSameTypeReq_def req_getProtocolDecl_def
  currentSerializationRequirement_def isVoid_def
  Id_remoteCall_def Id_remoteCallVoid_def Id_recordArgument_def Id_recordReturnType_def
  Id_recordErrorType_def

lemmas test_call_defs =
  BadRemoteCall_notPublic_def Error_wrongReturn_def FakeInvocationEncoder_def
  PublicEncoder_internalRecorders_def
  remoteCall_ok_def remoteCallVoid_ok_def remoteCall_returnsString_def
  remoteCall_returnsVoid_def remoteCallVoid_returnsString_def
  recordArgument_ok_def recordReturnType_ok_def recordErrorType_ok_def
  remoteCallReqs_def remoteCallParams_def conformanceReq_def sameTypeReq_def
  Act_def Err_def Res_def Argument_def CodableType_def
  testContext_def testContext_notLoaded_def knownProtocolName_def

lemmas sweep_defs =
  checkDistributedActorSystemAdHocProtocolRequirements_def checkRemoteCallRequirement_def
  checkRecordRequirement_def checkAdHocRequirementAccessControl_def
  diagnoseMissingAdHocRequirement_def isSpecificProtocol_def

lemma remoteCall_match_return_type:
  "isDistributedActorSystemRemoteCall decl func isVoidReturn \<Longrightarrow>
     hasTemplateReturnType func isVoidReturn"
  by (auto simp: isDistributedActorSystemRemoteCall_def hasTemplateReturnType_def Let_def
        split: list.splits)

lemma remoteCall_evaluate_None:
  assumes "\<forall>v \<in> set (lookupDirect decl (if isVoidReturn then Id_remoteCallVoid else Id_remoteCall)).
             \<forall>func. dyn_cast_AbstractFunctionDecl v = Some func \<longrightarrow>
               \<not> hasTemplateReturnType func isVoidReturn"
  shows "GetDistributedActorSystemRemoteCallFunctionRequest_evaluate C decl isVoidReturn = (None, [])"
proof -
  have "findFirstMatching (\<lambda>func. isDistributedActorSystemRemoteCall decl func isVoidReturn)
          (lookupDirect decl (if isVoidReturn then Id_remoteCallVoid else Id_remoteCall)) = None"
    using assms by (intro findFirstMatching_None) (blast dest: remoteCall_match_return_type)
  then show ?thesis
    by (simp add: GetDistributedActorSystemRemoteCallFunctionRequest_evaluate_def
          findDistributedAdHocRequirement_def Let_def)
qed

lemma sweep_missing_call_diagnosed:
  assumes "isSpecificProtocol C Proto DistributedActorSystem"
    and "fst (GetDistributedActorSystemRemoteCallFunctionRequest_evaluate C decl isVoidReturn) = None"
  shows "fst (checkDistributedActorSystemAdHocProtocolRequirements C Proto decl True)
     \<and> set (diagnoseMissingAdHocRequirement decl
               (if isVoidReturn then Id_remoteCallVoid else Id_remoteCall))
         \<subseteq> set (snd (checkDistributedActorSystemAdHocProtocolRequirements C Proto decl True))"
  using assms
  by (cases isVoidReturn)
     (auto simp: checkDistributedActorSystemAdHocProtocolRequirements_def
        checkRemoteCallRequirement_def Let_def split: prod.splits)


lemma decodeCandidatesLoop_single_FuncDecl:
  "decodeCandidatesLoop S [FuncDeclV FD] acc =
     (if decodeDereferencesNull (FuncDeclV FD) then Inl (NullDereference ''genericParamList'')
      else if \<exists>paramTy. decodeShapeValid FD paramTy
            \<and> numSerializationReqsCovered S paramTy (func_getGenericRequirements FD) = length S
      then Inr (acc @ [FD]) else Inr acc)"
  by (simp add: decodeShapeValid_def decodeDereferencesNull_def Let_def
        split: option.splits list.splits)

lemma decodeCandidatesLoop_single_other:
  "dyn_cast_FuncDecl m = None \<Longrightarrow> decodeCandidatesLoop S [m] acc = Inr acc"
  by simp

lemma decodeCandidateAccepted_iff:
  "decodeCandidateAccepted S m \<longleftrightarrow>
     (\<exists>FD paramTy. m = FuncDeclV FD \<and> decodeShapeValid FD paramTy
        \<and> numSerializationReqsCovered S paramTy (func_getGenericRequirements FD) = length S)"
proof (cases m)
  case (FuncDeclV FD)
  have "\<not> decodeDereferencesNull (FuncDeclV FD)" if "decodeShapeValid FD paramTy" for paramTy
    using that
    by (auto simp: decodeShapeValid_def decodeDereferencesNull_def split: option.splits)
  then show ?thesis
    using FuncDeclV
    by (auto simp: decodeCandidateAccepted_def decodeCandidatesLoop_single_FuncDecl
          simp del: decodeCandidatesLoop.simps)
qed (simp_all add: decodeCandidateAccepted_def)

lemma decodeCandidateAccepted_not_null:
  "decodeCandidateAccepted S m \<Longrightarrow> \<not> decodeDereferencesNull m"
  by (auto simp: decodeCandidateAccepted_iff decodeShapeValid_def decodeDereferencesNull_def
        split: option.splits)




lemma Requirement_conformance_eq:
  "(req_getKind r = Conformance \<and> req_getFirstType r = t \<and> req_getProtocolDecl r = Some p)
     = (r = conformanceReq t p)"
proof -
  have "protocolOfType u = Some p \<longleftrightarrow> u = ProtocolType p" for u
    by (cases u) auto
  then show ?thesis
    by (cases r) (auto simp: req_getProtocolDecl_def conformanceReq_def)
qed

lemma conformanceReq_inj: "conformanceReq t p = conformanceReq t q \<Longrightarrow> p = q"
  by (simp add: conformanceReq_def)

lemma hasConformanceReq_iff:
  "hasConformanceReq reqs t p \<longleftrightarrow> conformanceReq t p \<in> set reqs"
  unfolding hasConformanceReq_def list_ex_iff Requirement_conformance_eq by blast

lemma covered_requirement_iff:
  "(if \<not> (req_getFirstType r = t \<and> req_getKind r = Conformance) then False
    else (case req_getProtocolDecl r of Some p \<Rightarrow> p \<in> set S | None \<Rightarrow> False))
   \<longleftrightarrow> (\<exists>p \<in> set S. r = conformanceReq t p)"
proof (cases "req_getFirstType r = t \<and> req_getKind r = Conformance")
  case False
  then show ?thesis
    using Requirement_conformance_eq [of r t] by auto
next
  case True
  show ?thesis
  proof (cases "req_getProtocolDecl r")
    case None
    then show ?thesis
      using True Requirement_conformance_eq [of r t] by auto
  next
    case (Some q)
    then have "r = conformanceReq t p \<longleftrightarrow> p = q" for p
      using True Requirement_conformance_eq [of r t p] by auto
    then show ?thesis
      using True Some by auto
  qed
qed

lemma numSerializationReqsCovered_card:
  assumes "distinct reqs"
  shows "numSerializationReqsCovered S t reqs
           = card {p \<in> set S. hasConformanceReq reqs t p}"
proof -
  have "numSerializationReqsCovered S t reqs
          = length (filter (\<lambda>r. \<exists>p \<in> set S. r = conformanceReq t p) reqs)"
    unfolding numSerializationReqsCovered_def covered_requirement_iff ..
  also have "\<dots> = card (set (filter (\<lambda>r. \<exists>p \<in> set S. r = conformanceReq t p) reqs))"
    using assms by (intro distinct_card [symmetric] distinct_filter)
  also have "set (filter (\<lambda>r. \<exists>p \<in> set S. r = conformanceReq t p) reqs)
               = conformanceReq t ` {p \<in> set S. hasConformanceReq reqs t p}"
    unfolding hasConformanceReq_iff by auto
  also have "card (conformanceReq t ` {p \<in> set S. hasConformanceReq reqs t p})
               = card {p \<in> set S. hasConformanceReq reqs t p}"
    by (rule card_image) (auto simp: inj_on_def dest: conformanceReq_inj)
  finally show ?thesis .
qed

lemma numSerializationReqsCovered_all:
  assumes "distinct S" and "distinct reqs"
  shows "numSerializationReqsCovered S t reqs = length S
           \<longleftrightarrow> list_all (hasConformanceReq reqs t) S"
proof -
  let ?A = "{p \<in> set S. hasConformanceReq reqs t p}"
  have sub: "?A \<subseteq> set S" by blast
  have "card ?A = card (set S) \<longleftrightarrow> ?A = set S"
    using card_subset_eq [OF finite_set sub] by auto
  moreover have "?A = set S \<longleftrightarrow> list_all (hasConformanceReq reqs t) S"
    unfolding list_all_iff by blast
  ultimately show ?thesis
    using assms by (simp add: numSerializationReqsCovered_card distinct_card)
qed


lemmas decode_defs =
  decodeNextArgument_ok_def decodeNextArgument_async_def decodeNextArgument_extra_def
  decodeNextArgument_fewer_def decodeNextArgument_nongeneric_def FakeInvocationDecoder_def mkFunc_def mkNominal_def
  conformanceReq_def Argument_def CodableType_def Greeter_def
  numSerializationReqsCovered_def req_getProtocolDecl_def decodeShapeValid_def
  spec_nextArgumentDecodingPredicate_def hasConformanceReq_def
  getDistributedSerializationRequirementProtocols_def
  testContext_def testContext_tie_def testContext_nongeneric_def testContext_notLoaded_def knownProtocolName_def Id_decodeNextArgument_def

lemma decodeShapeValid_unique:
  "decodeShapeValid FD p \<Longrightarrow> decodeShapeValid FD q \<Longrightarrow> p = q"
  by (simp add: decodeShapeValid_def)

lemma decodeShapeValid_requirements:
  "decodeShapeValid (FD\<lparr>func_getGenericRequirements := rs\<rparr>) p = decodeShapeValid FD p"
  by (simp add: decodeShapeValid_def)

lemma decodeCandidateAccepted_shape:
  assumes "decodeShapeValid FD paramTy"
  shows "decodeCandidateAccepted S (FuncDeclV FD) \<longleftrightarrow>
           numSerializationReqsCovered S paramTy (func_getGenericRequirements FD) = length S"
  using assms decodeShapeValid_unique [OF assms]
  unfolding decodeCandidateAccepted_iff by blast

lemma numSerializationReqsCovered_extras:
  assumes "\<forall>r \<in> set extras. \<not> (req_getKind r = Conformance \<and> req_getFirstType r = paramTy
              \<and> (\<exists>p \<in> set S. req_getProtocolDecl r = Some p))"
  shows "numSerializationReqsCovered S paramTy (xs @ extras @ ys)
           = numSerializationReqsCovered S paramTy (xs @ ys)"
proof -
  have "filter (\<lambda>requirement.
          if \<not> (req_getFirstType requirement = paramTy \<and> req_getKind requirement = Conformance)
          then False
          else (case req_getProtocolDecl requirement of
                  Some p \<Rightarrow> p \<in> set S
                | None \<Rightarrow> False)) extras = []"
    using assms by (auto simp: filter_empty_conv split: option.splits)
  then show ?thesis
    by (simp add: numSerializationReqsCovered_def)
qed



lemma paramReqLoop_conforms:
  "paramConforms C reqs p \<Longrightarrow> paramReqLoop C p isCodable diagnose reqs = (False, [])"
  by (induction reqs) (auto simp: paramConforms_def)

lemma paramReqLoop_fails:
  "\<not> paramConforms C reqs p \<Longrightarrow>
     \<exists>s. paramReqLoop C p isCodable diagnose reqs =
       (True, if diagnose
              then [distributed_actor_func_param_not_codable (param_getArgumentName p)
                      (param_getInterfaceType p) s]
              else [])"
  by (induction reqs) (auto simp: paramConforms_def)

lemma paramReqLoop_variadic:
  "paramReqLoop C (param_isVariadic_update f p) isCodable diagnose reqs
     = paramReqLoop C p isCodable diagnose reqs"
  by (induction reqs) auto

lemma paramLoop_Cons:
  "paramLoop C name reqs isCodable diagnose (p # ps) =
     (if fst (paramReqLoop C p isCodable diagnose reqs)
      then (True, snd (paramReqLoop C p isCodable diagnose reqs))
      else if param_isInOut p
      then (True, snd (paramReqLoop C p isCodable diagnose reqs)
                    @ [distributed_actor_func_inout (param_getName p) name])
      else (fst (paramLoop C name reqs isCodable diagnose ps),
            snd (paramReqLoop C p isCodable diagnose reqs)
              @ (if param_isVariadic p
                 then [distributed_actor_func_variadic (param_getName p) name] else [])
              @ snd (paramLoop C name reqs isCodable diagnose ps)))"
  by (simp add: Let_def split: prod.splits bool.splits)

lemma paramLoop_prefix:
  "\<forall>q \<in> set ps. paramConforms C reqs q \<and> \<not> param_isInOut q \<Longrightarrow>
     paramLoop C name reqs isCodable diagnose (ps @ rest)
       = (fst (paramLoop C name reqs isCodable diagnose rest),
          variadicDiags name ps @ snd (paramLoop C name reqs isCodable diagnose rest))"
proof (induction ps)
  case Nil
  show ?case by (simp add: variadicDiags_def)
next
  case (Cons q ps)
  then have q: "paramReqLoop C q isCodable diagnose reqs = (False, [])" and "\<not> param_isInOut q"
    by (simp_all add: paramReqLoop_conforms)
  with Cons show ?case
    by (simp add: variadicDiags_def paramLoop_Cons del: paramLoop.simps(2))
qed

lemma paramLoop_all_conform:
  "\<forall>q \<in> set ps. paramConforms C reqs q \<and> \<not> param_isInOut q \<Longrightarrow>
     paramLoop C name reqs isCodable diagnose ps = (False, variadicDiags name ps)"
  using paramLoop_prefix [of ps C reqs name isCodable diagnose "[]"] by simp

lemma paramLoop_first_failure:
  assumes "\<forall>q \<in> set ps. paramConforms C reqs q \<and> \<not> param_isInOut q"
    and "\<not> paramConforms C reqs p"
  shows "\<exists>s. paramLoop C name reqs isCodable True (ps @ p # qs)
           = (True, variadicDiags name ps @
                [distributed_actor_func_param_not_codable (param_getArgumentName p)
                   (param_getInterfaceType p) s])"
proof -
  from paramReqLoop_fails [OF assms(2), of isCodable True]
  obtain s where "paramReqLoop C p isCodable True reqs =
       (True, [distributed_actor_func_param_not_codable (param_getArgumentName p)
                      (param_getInterfaceType p) s])"
    by auto
  then have "paramLoop C name reqs isCodable True (p # qs)
               = (True, [distributed_actor_func_param_not_codable (param_getArgumentName p)
                      (param_getInterfaceType p) s])"
    by (simp add: paramLoop_Cons del: paramLoop.simps(2))
  then show ?thesis
    using paramLoop_prefix [OF assms(1), of name isCodable True "p # qs"] by simp
qed

lemma variadicDiags_no_failure: "filter isFailureDiag (variadicDiags name ps) = []"
  by (induction ps) (auto simp: variadicDiags_def)

lemma paramLoop_failure_diags:
  "length (filter isFailureDiag (snd (paramLoop C name reqs isCodable diagnose ps))) \<le> 1
   \<and> (fst (paramLoop C name reqs isCodable diagnose ps) \<and> diagnose \<longrightarrow>
        length (filter isFailureDiag (snd (paramLoop C name reqs isCodable diagnose ps))) = 1)
   \<and> (\<not> fst (paramLoop C name reqs isCodable diagnose ps) \<longrightarrow>
        filter isFailureDiag (snd (paramLoop C name reqs isCodable diagnose ps)) = [])"
proof (induction ps)
  case Nil
  show ?case by simp
next
  case (Cons p ps)
  show ?case
  proof (cases "paramConforms C reqs p")
    case False
    from paramReqLoop_fails [OF False, of isCodable diagnose]
    obtain s where "paramReqLoop C p isCodable diagnose reqs =
       (True, if diagnose
              then [distributed_actor_func_param_not_codable (param_getArgumentName p)
                      (param_getInterfaceType p) s]
              else [])"
      by auto
    then show ?thesis
      by (cases diagnose) (simp_all add: paramLoop_Cons del: paramLoop.simps(2))
  next
    case True
    then have "paramReqLoop C p isCodable diagnose reqs = (False, [])"
      by (rule paramReqLoop_conforms)
    with Cons show ?thesis
      by (cases diagnose) (simp_all add: paramLoop_Cons del: paramLoop.simps(2))
  qed
qed

lemma paramLoop_inout:
  "\<exists>p \<in> set ps. param_isInOut p \<Longrightarrow> fst (paramLoop C name reqs isCodable diagnose ps)"
  by (induction ps) (auto simp: paramLoop_Cons simp del: paramLoop.simps(2))

lemma paramLoop_variadic_flag:
  "fst (paramLoop C name reqs isCodable diagnose (map (param_isVariadic_update f) ps))
     = fst (paramLoop C name reqs isCodable diagnose ps)"
  by (induction ps)
     (simp_all add: paramLoop_Cons paramReqLoop_variadic del: paramLoop.simps(2))

lemma resultTypeReqLoop_not_diagnosing:
  "resultTypeReqLoop C resultType name isCodable False reqs = (False, [])"
  by (induction reqs) auto

lemma resultTypeReqLoop_conforms:
  "\<forall>req \<in> set reqs. ctx_conformsToProtocol C resultType req \<Longrightarrow>
     resultTypeReqLoop C resultType name isCodable diagnose reqs = (False, [])"
  by (induction reqs) auto

lemma resultTypeReqLoop_diagnosing:
  "\<exists>req \<in> set reqs. \<not> ctx_conformsToProtocol C resultType req \<Longrightarrow>
     \<exists>s. resultTypeReqLoop C resultType name isCodable True reqs
           = (True, [distributed_actor_target_result_not_codable resultType name s])"
  by (induction reqs) auto

lemma resultTypeReqLoop_flag:
  "fst (resultTypeReqLoop C resultType name isCodable diagnose reqs) \<Longrightarrow> diagnose"
  by (cases diagnose) (simp_all add: resultTypeReqLoop_not_diagnosing)

lemma resultTypeReqLoop_failure_diags:
  "length (filter isFailureDiag (snd (resultTypeReqLoop C t name isCodable diagnose reqs)))
     = (if fst (resultTypeReqLoop C t name isCodable diagnose reqs) then 1 else 0)"
  by (induction reqs) auto

lemma checkDistributedFunction_unfold:
  assumes "func_isDistributed func"
    and "serializationRequirementsOfContext C declContext = Inr reqs"
  shows "checkDistributedFunction C declContext func diagnose =
     (if fst (paramLoop C (func_getName func) reqs
                (checkDistributedSerializationRequirementIsExactlyCodable C reqs) diagnose
                (func_getParameters func))
      then Inr (True, snd (paramLoop C (func_getName func) reqs
                (checkDistributedSerializationRequirementIsExactlyCodable C reqs) diagnose
                (func_getParameters func)))
      else if isVoid (func_getResultInterfaceType func)
      then Inr (False, snd (paramLoop C (func_getName func) reqs
                (checkDistributedSerializationRequirementIsExactlyCodable C reqs) diagnose
                (func_getParameters func)))
      else Inr (fst (resultTypeReqLoop C (func_getResultInterfaceType func) (func_getName func)
                       (checkDistributedSerializationRequirementIsExactlyCodable C reqs)
                       diagnose reqs),
                snd (paramLoop C (func_getName func) reqs
                       (checkDistributedSerializationRequirementIsExactlyCodable C reqs) diagnose
                       (func_getParameters func))
                @ snd (resultTypeReqLoop C (func_getResultInterfaceType func) (func_getName func)
                         (checkDistributedSerializationRequirementIsExactlyCodable C reqs)
                         diagnose reqs)))"
  using assms
  by (simp add: checkDistributedFunction_def checkDistributedTargetResultType_def
        split: prod.splits bool.splits)

lemmas function_defs =
  twoBadParams_def inoutThenBad_def inoutParam_def variadicParam_def badResult_def mkDistributedFunc_def
  mkFunc_def mkParam_def Void_def Greeter_def BrokenGreeter_def mkNominal_def CodableType_def
  testContext_def knownProtocolName_def
  serializationRequirementsOfContext_def getDistributedSerializationRequirementProtocols_def
  paramConforms_def variadicDiags_def isVoid_def firstFailingReq_def conformanceToSuggest_def
  checkDistributedSerializationRequirementIsExactlyCodable_def

lemma checkDistributedFunction_flag:
  assumes "func_isDistributed func"
    and "serializationRequirementsOfContext C declContext = Inr reqs"
  shows "returnedFlag (checkDistributedFunction C declContext func diagnose) =
     Some (fst (paramLoop C (func_getName func) reqs
                  (checkDistributedSerializationRequirementIsExactlyCodable C reqs) diagnose
                  (func_getParameters func))
           \<or> (\<not> isVoid (func_getResultInterfaceType func)
               \<and> fst (resultTypeReqLoop C (func_getResultInterfaceType func) (func_getName func)
                         (checkDistributedSerializationRequirementIsExactlyCodable C reqs)
                         diagnose reqs)))"
  by (simp add: checkDistributedFunction_unfold [OF assms])

lemma checkDistributedFunction_all_conform:
  assumes "func_isDistributed func"
    and "serializationRequirementsOfContext C declContext = Inr reqs"
    and "\<forall>p \<in> set (func_getParameters func). paramConforms C reqs p \<and> \<not> param_isInOut p"
    and "diagnose \<longrightarrow> isVoid (func_getResultInterfaceType func)
           \<or> (\<forall>req \<in> set reqs. ctx_conformsToProtocol C (func_getResultInterfaceType func) req)"
  shows "checkDistributedFunction C declContext func diagnose
           = Inr (False, variadicDiags (func_getName func) (func_getParameters func))"
proof -
  have "resultTypeReqLoop C (func_getResultInterfaceType func) (func_getName func)
          (checkDistributedSerializationRequirementIsExactlyCodable C reqs) diagnose reqs
          = (False, [])" if "\<not> isVoid (func_getResultInterfaceType func)"
    using that assms(4) resultTypeReqLoop_not_diagnosing resultTypeReqLoop_conforms
    by (cases diagnose) auto
  then show ?thesis
    by (simp add: checkDistributedFunction_unfold [OF assms(1,2)]
          paramLoop_all_conform [OF assms(3)])
qed

lemma paramLoop_unconstrained:
  "fst (paramLoop C name [] isCodable diagnose ps) = list_ex param_isInOut ps
   \<and> \<not> list_ex isConformanceDiag (snd (paramLoop C name [] isCodable diagnose ps))"
  by (induction ps) (simp_all add: paramLoop_Cons del: paramLoop.simps(2))

lemma decodeCandidateAccepted_unconstrained:
  "decodeShapeValid FD paramTy \<Longrightarrow> decodeCandidateAccepted [] (FuncDeclV FD)"
  by (simp add: decodeCandidateAccepted_shape numSerializationReqsCovered_def
        option.case_eq_if)

lemma paramConforms_firstFailingReq:
  "paramConforms C reqs p \<longleftrightarrow> firstFailingReq C (param_getInterfaceType p) reqs = None"
  by (auto simp: paramConforms_def firstFailingReq_def find_None_iff list_all_iff)

lemma paramReqLoop_find:
  "paramReqLoop C p isCodable diagnose reqs =
     (case firstFailingReq C (param_getInterfaceType p) reqs of
        None \<Rightarrow> (False, [])
      | Some req \<Rightarrow>
          (True, if diagnose
                 then [distributed_actor_func_param_not_codable (param_getArgumentName p)
                         (param_getInterfaceType p) (if isCodable then ''Codable'' else req)]
                 else []))"
  by (induction reqs) (simp_all add: firstFailingReq_def)

lemma resultTypeReqLoop_find:
  "resultTypeReqLoop C t name isCodable True reqs =
     (case firstFailingReq C t reqs of
        None \<Rightarrow> (False, [])
      | Some req \<Rightarrow>
          (True, [distributed_actor_target_result_not_codable t name
                    (if isCodable then ''Codable'' else req)]))"
  by (induction reqs) (simp_all add: firstFailingReq_def)

lemma paramLoop_first_nonconforming:
  assumes "\<forall>q \<in> set ps. paramConforms C reqs q \<and> \<not> param_isInOut q"
    and "firstFailingReq C (param_getInterfaceType p) reqs = Some req"
  shows "paramLoop C name reqs isCodable diagnose (ps @ p # qs)
           = (True, variadicDiags name ps @
                (if diagnose
                 then [distributed_actor_func_param_not_codable (param_getArgumentName p)
                         (param_getInterfaceType p) (if isCodable then ''Codable'' else req)]
                 else []))"
proof -
  have "paramLoop C name reqs isCodable diagnose (p # qs)
          = (True, if diagnose
                   then [distributed_actor_func_param_not_codable (param_getArgumentName p)
                           (param_getInterfaceType p) (if isCodable then ''Codable'' else req)]
                   else [])"
    using assms(2) by (simp add: paramLoop_Cons paramReqLoop_find del: paramLoop.simps(2))
  then show ?thesis
    using paramLoop_prefix [OF assms(1), of name isCodable diagnose "p # qs"] by simp
qed

lemma paramLoop_first_inout:
  assumes "\<forall>q \<in> set ps. paramConforms C reqs q \<and> \<not> param_isInOut q"
    and "paramConforms C reqs p" and "param_isInOut p"
  shows "paramLoop C name reqs isCodable diagnose (ps @ p # qs)
           = (True, variadicDiags name ps @ [distributed_actor_func_inout (param_getName p) name])"
proof -
  have "paramLoop C name reqs isCodable diagnose (p # qs)
          = (True, [distributed_actor_func_inout (param_getName p) name])"
    using assms(2,3)
    by (simp add: paramLoop_Cons paramReqLoop_conforms del: paramLoop.simps(2))
  then show ?thesis
    using paramLoop_prefix [OF assms(1), of name isCodable diagnose "p # qs"] by simp
qed

lemma sweep_not_diagnosing_no_missing_witness:
  assumes "isSpecificProtocol C Proto DistributedActorSystem"
  shows "\<not> list_ex isMissingWitnessDiag
            (snd (checkDistributedActorSystemAdHocProtocolRequirements C Proto decl False))"
proof -
  have call: "\<not> list_ex isMissingWitnessDiag
                 (snd (checkRemoteCallRequirement C Proto decl isVoidReturn False))"
    for isVoidReturn
  proof (cases "GetDistributedActorSystemRemoteCallFunctionRequest_evaluate C decl isVoidReturn")
    case (Pair remoteCallDecl ds0)
    then have "ds0 = []"
      using findDistributedAdHocRequirement_snd
      by (metis GetDistributedActorSystemRemoteCallFunctionRequest_evaluate_def snd_conv)
    with Pair show ?thesis
      by (cases remoteCallDecl)
         (simp_all add: checkRemoteCallRequirement_def checkAdHocRequirementAccessControl_def)
  qed
  show ?thesis
    using assms call [of False] call [of True]
    by (auto simp: checkDistributedActorSystemAdHocProtocolRequirements_def split: prod.splits)
qed

lemma remoteCall_evaluate_no_match:
  assumes "\<forall>v \<in> set (lookupDirect decl (if isVoidReturn then Id_remoteCallVoid else Id_remoteCall)).
             \<forall>f. dyn_cast_AbstractFunctionDecl v = Some f \<longrightarrow>
               \<not> isDistributedActorSystemRemoteCall decl f isVoidReturn"
  shows "GetDistributedActorSystemRemoteCallFunctionRequest_evaluate C decl isVoidReturn = (None, [])"
proof -
  have "findFirstMatching (\<lambda>func. isDistributedActorSystemRemoteCall decl func isVoidReturn)
          (lookupDirect decl (if isVoidReturn then Id_remoteCallVoid else Id_remoteCall)) = None"
    using assms by (intro findFirstMatching_None) blast
  then show ?thesis
    by (simp add: GetDistributedActorSystemRemoteCallFunctionRequest_evaluate_def
          findDistributedAdHocRequirement_def Let_def)
qed

lemma remoteCall_evaluate_Some:
  assumes "fst (GetDistributedActorSystemRemoteCallFunctionRequest_evaluate C decl isVoidReturn)
             = Some func"
  shows "isDistributedActorSystemRemoteCall decl func isVoidReturn
         \<and> (\<exists>v \<in> set (lookupDirect decl
                          (if isVoidReturn then Id_remoteCallVoid else Id_remoteCall)).
               dyn_cast_AbstractFunctionDecl v = Some func)"
proof -
  from assms obtain ds where
    "findDistributedAdHocRequirement C decl
       (if isVoidReturn then Id_remoteCallVoid else Id_remoteCall)
       (\<lambda>func. isDistributedActorSystemRemoteCall decl func isVoidReturn) = (Some func, ds)"
    by (cases "findDistributedAdHocRequirement C decl
                 (if isVoidReturn then Id_remoteCallVoid else Id_remoteCall)
                 (\<lambda>func. isDistributedActorSystemRemoteCall decl func isVoidReturn)")
       (simp add: GetDistributedActorSystemRemoteCallFunctionRequest_evaluate_def Let_def)
  then show ?thesis
    by (blast dest: findDistributedAdHocRequirement_Some)
qed

lemma checkDistributedFunction_result_only:
  assumes "func_isDistributed func"
    and "serializationRequirementsOfContext C declContext = Inr reqs"
    and "\<forall>q \<in> set (func_getParameters func). paramConforms C reqs q \<and> \<not> param_isInOut q"
    and "\<not> isVoid (func_getResultInterfaceType func)"
    and "firstFailingReq C (func_getResultInterfaceType func) reqs = Some req"
  shows "checkDistributedFunction C declContext func True
           = Inr (True, variadicDiags (func_getName func) (func_getParameters func)
                        @ [distributed_actor_target_result_not_codable
                             (func_getResultInterfaceType func) (func_getName func)
                             (conformanceToSuggest C reqs req)])"
    and "checkDistributedFunction C declContext func False
           = Inr (False, variadicDiags (func_getName func) (func_getParameters func))"
  using assms(4,5)
  by (simp_all add: checkDistributedFunction_unfold [OF assms(1,2)]
        paramLoop_all_conform [OF assms(3)] resultTypeReqLoop_find
        resultTypeReqLoop_not_diagnosing conformanceToSuggest_def)

subsection \<open>Designated initializers\<close>

text \<open>C5. For a designated initializer of a distributed actor, the check emits no
  diagnostic if and only if exactly one parameter has the actor system type of the actor;
  with no such parameter it emits the missing-transport-parameter diagnostic, with two or
  more the diagnostic that reports their number. An initializer that is not designated is
  not checked.\<close>

theorem designated_init_one_transport_param:
  "(nominal_isDistributedActor decl \<and> func_isDesignatedInit ctor \<longrightarrow>
      (checkDistributedActorConstructor decl ctor = [] \<longleftrightarrow> length (transportParams decl ctor) = 1)
    \<and> (length (transportParams decl ctor) = 0 \<longrightarrow>
         checkDistributedActorConstructor decl ctor =
           [distributed_actor_designated_ctor_missing_transport_param (func_getName ctor)])
    \<and> (2 \<le> length (transportParams decl ctor) \<longrightarrow>
         checkDistributedActorConstructor decl ctor =
           [distributed_actor_designated_ctor_must_have_one_distributedactorsystem_param
              (func_getName ctor) (int (length (transportParams decl ctor)))]))
   \<and> (\<not> func_isDesignatedInit ctor \<longrightarrow> checkDistributedActorConstructor decl ctor = [])"
  by (auto simp: checkDistributedActorConstructor_def transportParams_def
        countTransportParams_filter Let_def)

theorem designated_init_one_transport_param_witness:
  "checkDistributedActorConstructor Greeter (mkInit True [systemParam ''system'']) = []
   \<and> checkDistributedActorConstructor Greeter (mkInit True [mkParam ''name'' (NominalType ''String'')])
       = [distributed_actor_designated_ctor_missing_transport_param ''init'']
   \<and> checkDistributedActorConstructor Greeter (mkInit True [systemParam ''a'', systemParam ''b''])
       = [distributed_actor_designated_ctor_must_have_one_distributedactorsystem_param ''init'' 2]
   \<and> checkDistributedActorConstructor Greeter (mkInit False [systemParam ''a'', systemParam ''b'']) = []"
proof -
  have actor: "nominal_isDistributedActor Greeter"
    by (simp add: test_decl_defs)
  have designated: "func_isDesignatedInit (mkInit True ps)" for ps
    by (simp add: test_decl_defs)
  have convenience: "\<not> func_isDesignatedInit (mkInit False ps)" for ps
    by (simp add: test_decl_defs)
  have one: "length (transportParams Greeter (mkInit True [systemParam ''system''])) = 1"
    by (simp add: transportParams_def test_decl_defs)
  have zero: "length (transportParams Greeter (mkInit True [mkParam ''name'' (NominalType ''String'')])) = 0"
    by (simp add: transportParams_def test_decl_defs)
  have two: "length (transportParams Greeter (mkInit True [systemParam ''a'', systemParam ''b''])) = 2"
    by (simp add: transportParams_def test_decl_defs)
  have name: "func_getName (mkInit d ps) = ''init''" for d ps
    by (simp add: test_decl_defs)
  from designated_init_one_transport_param [of Greeter "mkInit True [systemParam ''system'']"]
    actor designated one
  have r1: "checkDistributedActorConstructor Greeter (mkInit True [systemParam ''system'']) = []"
    by blast
  from designated_init_one_transport_param
         [of Greeter "mkInit True [mkParam ''name'' (NominalType ''String'')]"]
    actor designated zero name
  have r0: "checkDistributedActorConstructor Greeter
              (mkInit True [mkParam ''name'' (NominalType ''String'')])
            = [distributed_actor_designated_ctor_missing_transport_param ''init'']"
    by metis
  from designated_init_one_transport_param
         [of Greeter "mkInit True [systemParam ''a'', systemParam ''b'']"]
    actor designated two name
  have r2: "checkDistributedActorConstructor Greeter
              (mkInit True [systemParam ''a'', systemParam ''b''])
            = [distributed_actor_designated_ctor_must_have_one_distributedactorsystem_param ''init'' 2]"
    by simp
  from designated_init_one_transport_param
         [of Greeter "mkInit False [systemParam ''a'', systemParam ''b'']"]
    convenience
  have r3: "checkDistributedActorConstructor Greeter
              (mkInit False [systemParam ''a'', systemParam ''b'']) = []"
    by blast
  from r1 r0 r2 r3 show ?thesis by blast
qed

subsection \<open>Access control\<close>

text \<open>C6, as the code has it. When the conforming type is at least public, the access
  check of a resolved operation whose access is below public returns true and emits the
  diagnostic, although the operation matched its template; the conformance check of an
  actor system, which passes the two call operations to the access check, then returns
  true. For an operation that did not resolve, the access check returns false and emits
  nothing.\<close>

theorem access_control_of_resolved_operation:
  "(accessRank Public \<le> accessRank (nominal_getEffectiveAccess decl)
      \<and> accessRank (func_getEffectiveAccess func) < accessRank Public \<longrightarrow>
        checkAdHocRequirementAccessControl decl proto (Some func) =
          (True, [witness_not_accessible_type (func_getName func) Public proto])
        \<and> (isSpecificProtocol C proto DistributedActorSystem
            \<and> fst (GetDistributedActorSystemRemoteCallFunctionRequest_evaluate C decl isVoidReturn)
                = Some func \<longrightarrow>
              fst (checkDistributedActorSystemAdHocProtocolRequirements C proto decl diagnose)))
   \<and> checkAdHocRequirementAccessControl decl proto None = (False, [])"
  by (cases isVoidReturn)
     (auto simp: checkAdHocRequirementAccessControl_def
        checkDistributedActorSystemAdHocProtocolRequirements_def checkRemoteCallRequirement_def
        Let_def split: prod.splits)

theorem access_control_of_resolved_operation_witness:
  "accessRank Public \<le> accessRank (nominal_getEffectiveAccess BadRemoteCall_notPublic)
   \<and> accessRank (func_getEffectiveAccess remoteCall_ok) < accessRank Public
   \<and> fst (GetDistributedActorSystemRemoteCallFunctionRequest_evaluate testContext
            BadRemoteCall_notPublic False) = Some remoteCall_ok
   \<and> checkAdHocRequirementAccessControl BadRemoteCall_notPublic ''DistributedActorSystem''
        (Some remoteCall_ok)
       = (True, [witness_not_accessible_type ''remoteCall'' Public ''DistributedActorSystem''])
   \<and> fst (checkDistributedActorSystemAdHocProtocolRequirements testContext
            ''DistributedActorSystem'' BadRemoteCall_notPublic False)"
proof -
  have type_public:
    "accessRank Public \<le> accessRank (nominal_getEffectiveAccess BadRemoteCall_notPublic)"
    by (simp add: BadRemoteCall_notPublic_def mkNominal_def)
  have func_internal: "accessRank (func_getEffectiveAccess remoteCall_ok) < accessRank Public"
    by (simp add: remoteCall_ok_def mkFunc_def)
  have name: "func_getName remoteCall_ok = ''remoteCall''"
    by (simp add: remoteCall_ok_def mkFunc_def)
  have system: "isSpecificProtocol testContext ''DistributedActorSystem'' DistributedActorSystem"
    by (simp add: isSpecificProtocol_def testContext_def knownProtocolName_def)
  have resolved:
    "fst (GetDistributedActorSystemRemoteCallFunctionRequest_evaluate testContext
            BadRemoteCall_notPublic False) = Some remoteCall_ok"
    by (simp add: resolution_defs test_call_defs test_decl_defs)
  from access_control_of_resolved_operation
         [of BadRemoteCall_notPublic remoteCall_ok "''DistributedActorSystem''" testContext
             False False]
    type_public func_internal name system resolved
  show ?thesis by simp
qed

text \<open>C6 as stated fails for the recording operations: the conformance check of an
  encoder does not pass them to the access check, so a public encoder whose resolved
  recorders are internal is accepted without a diagnostic.\<close>

theorem internal_recorder_not_reported_counterexample:
  "accessRank Public \<le> accessRank (nominal_getEffectiveAccess PublicEncoder_internalRecorders)
   \<and> fst (GetDistributedTargetInvocationEncoderRecordArgumentFunctionRequest_evaluate
            testContext PublicEncoder_internalRecorders) = Some recordArgument_ok
   \<and> accessRank (func_getEffectiveAccess recordArgument_ok) < accessRank Public
   \<and> isSpecificProtocol testContext ''DistributedTargetInvocationEncoder''
        DistributedTargetInvocationEncoder
   \<and> checkDistributedActorSystemAdHocProtocolRequirements testContext
        ''DistributedTargetInvocationEncoder'' PublicEncoder_internalRecorders True
       = (False, [])"
  by (simp add: resolution_defs sweep_defs test_call_defs test_decl_defs)

subsection \<open>Resolution without the module\<close>

text \<open>C9, as the code has it. When the \<^verbatim>\<open>Distributed\<close> module is not loaded, the
  resolution of an ad-hoc requirement through \<^verbatim>\<open>findDistributedAdHocRequirement\<close>
  returns the null function at once and emits no diagnostic, whatever the type, the name
  and the template; so do the requests for the two call operations and the three
  recording operations.\<close>

theorem module_not_loaded_not_found:
  "\<not> ctx_DistributedLoaded C \<Longrightarrow>
     findDistributedAdHocRequirement C decl identifier matchFn = (None, [])
     \<and> GetDistributedActorSystemRemoteCallFunctionRequest_evaluate C decl isVoidReturn = (None, [])
     \<and> GetDistributedTargetInvocationEncoderRecordArgumentFunctionRequest_evaluate C decl = (None, [])
     \<and> GetDistributedTargetInvocationEncoderRecordReturnTypeFunctionRequest_evaluate C decl = (None, [])
     \<and> GetDistributedTargetInvocationEncoderRecordErrorTypeFunctionRequest_evaluate C decl = (None, [])"
  by (simp add: findDistributedAdHocRequirement_def
        GetDistributedActorSystemRemoteCallFunctionRequest_evaluate_def
        GetDistributedTargetInvocationEncoderRecordArgumentFunctionRequest_evaluate_def
        GetDistributedTargetInvocationEncoderRecordReturnTypeFunctionRequest_evaluate_def
        GetDistributedTargetInvocationEncoderRecordErrorTypeFunctionRequest_evaluate_def)

theorem module_not_loaded_not_found_witness:
  "\<not> ctx_DistributedLoaded testContext_notLoaded
   \<and> GetDistributedActorSystemRemoteCallFunctionRequest_evaluate testContext_notLoaded
        BadRemoteCall_notPublic False = (None, [])
   \<and> GetDistributedTargetInvocationEncoderRecordArgumentFunctionRequest_evaluate
        testContext_notLoaded FakeInvocationEncoder = (None, [])
   \<and> fst (GetDistributedActorSystemRemoteCallFunctionRequest_evaluate testContext
            BadRemoteCall_notPublic False) = Some remoteCall_ok
   \<and> fst (GetDistributedTargetInvocationEncoderRecordArgumentFunctionRequest_evaluate
            testContext FakeInvocationEncoder) = Some recordArgument_ok"
proof -
  have not_loaded: "\<not> ctx_DistributedLoaded testContext_notLoaded"
    by (simp add: testContext_notLoaded_def)
  have call_found:
    "fst (GetDistributedActorSystemRemoteCallFunctionRequest_evaluate testContext
            BadRemoteCall_notPublic False) = Some remoteCall_ok"
    by (simp add: resolution_defs test_call_defs test_decl_defs)
  have record_found:
    "fst (GetDistributedTargetInvocationEncoderRecordArgumentFunctionRequest_evaluate
            testContext FakeInvocationEncoder) = Some recordArgument_ok"
    by (simp add: resolution_defs test_call_defs test_decl_defs)
  from module_not_loaded_not_found [OF not_loaded, of BadRemoteCall_notPublic _ _ False]
       module_not_loaded_not_found [OF not_loaded, of FakeInvocationEncoder]
       not_loaded call_found record_found
  show ?thesis by simp
qed

text \<open>C9 as stated fails for the argument decoding operation: its request does not test
  whether the module is loaded, and answers with the method it finds.\<close>

theorem decoding_resolves_without_module_counterexample:
  "\<not> ctx_DistributedLoaded testContext_notLoaded
   \<and> GetDistributedActorArgumentDecodingMethodRequest_evaluate testContext_notLoaded Greeter
       = Inr decodeNextArgument_ok"
  by (simp add: decode_defs GetDistributedActorArgumentDecodingMethodRequest_evaluate_def Let_def)

subsection \<open>Call operations with the wrong return type\<close>

text \<open>C1, as the code has it. A function that does not have the return type of the
  template of a call operation does not match the template and is never the answer of the
  request for that operation, whatever else of the template it satisfies. The answer is
  never a partial match: it is a member that satisfies the whole template, or the null
  function with no diagnostic, and it is the null function whenever no member of the
  operation's name satisfies the whole template. When the request answers with the null
  function, the conformance check of an actor system, run with \<^verbatim>\<open>diagnose\<close> set,
  returns true and emits the missing-witness error and its note; run with \<^verbatim>\<open>diagnose\<close>
  unset, it emits no missing-witness diagnostic at all.\<close>

theorem wrong_return_type_is_no_match:
  "(\<not> hasTemplateReturnType func isVoidReturn \<longrightarrow>
      \<not> isDistributedActorSystemRemoteCall decl func isVoidReturn
      \<and> fst (GetDistributedActorSystemRemoteCallFunctionRequest_evaluate C decl isVoidReturn)
          \<noteq> Some func)
   \<and> (fst (GetDistributedActorSystemRemoteCallFunctionRequest_evaluate C decl isVoidReturn)
         = Some func \<longrightarrow>
        isDistributedActorSystemRemoteCall decl func isVoidReturn
        \<and> hasTemplateReturnType func isVoidReturn)
   \<and> ((\<forall>v \<in> set (lookupDirect decl (if isVoidReturn then Id_remoteCallVoid else Id_remoteCall)).
          \<forall>f. dyn_cast_AbstractFunctionDecl v = Some f \<longrightarrow>
            \<not> isDistributedActorSystemRemoteCall decl f isVoidReturn)
        \<longrightarrow> GetDistributedActorSystemRemoteCallFunctionRequest_evaluate C decl isVoidReturn
              = (None, []))
   \<and> (isSpecificProtocol C Proto DistributedActorSystem
        \<and> fst (GetDistributedActorSystemRemoteCallFunctionRequest_evaluate C decl isVoidReturn)
            = None \<longrightarrow>
          fst (checkDistributedActorSystemAdHocProtocolRequirements C Proto decl True)
          \<and> set (diagnoseMissingAdHocRequirement decl
                    (if isVoidReturn then Id_remoteCallVoid else Id_remoteCall))
              \<subseteq> set (snd (checkDistributedActorSystemAdHocProtocolRequirements C Proto decl True)))
   \<and> (isSpecificProtocol C Proto DistributedActorSystem \<longrightarrow>
        \<not> list_ex isMissingWitnessDiag
             (snd (checkDistributedActorSystemAdHocProtocolRequirements C Proto decl False)))"
proof (intro conjI impI)
  assume wrong: "\<not> hasTemplateReturnType func isVoidReturn"
  then show no: "\<not> isDistributedActorSystemRemoteCall decl func isVoidReturn"
    by (blast dest: remoteCall_match_return_type)
  then show "fst (GetDistributedActorSystemRemoteCallFunctionRequest_evaluate C decl isVoidReturn)
          \<noteq> Some func"
    by (blast dest: remoteCall_evaluate_Some)
next
  assume found: "fst (GetDistributedActorSystemRemoteCallFunctionRequest_evaluate C decl
                        isVoidReturn) = Some func"
  then show full: "isDistributedActorSystemRemoteCall decl func isVoidReturn"
    by (blast dest: remoteCall_evaluate_Some)
  then show "hasTemplateReturnType func isVoidReturn"
    by (rule remoteCall_match_return_type)
next
  assume "\<forall>v \<in> set (lookupDirect decl (if isVoidReturn then Id_remoteCallVoid else Id_remoteCall)).
            \<forall>f. dyn_cast_AbstractFunctionDecl v = Some f \<longrightarrow>
              \<not> isDistributedActorSystemRemoteCall decl f isVoidReturn"
  then show "GetDistributedActorSystemRemoteCallFunctionRequest_evaluate C decl isVoidReturn
               = (None, [])"
    by (rule remoteCall_evaluate_no_match)
next
  assume h: "isSpecificProtocol C Proto DistributedActorSystem
        \<and> fst (GetDistributedActorSystemRemoteCallFunctionRequest_evaluate C decl isVoidReturn)
            = None"
  then show "fst (checkDistributedActorSystemAdHocProtocolRequirements C Proto decl True)"
    using sweep_missing_call_diagnosed by blast
  from h show "set (diagnoseMissingAdHocRequirement decl
                    (if isVoidReturn then Id_remoteCallVoid else Id_remoteCall))
              \<subseteq> set (snd (checkDistributedActorSystemAdHocProtocolRequirements C Proto decl True))"
    using sweep_missing_call_diagnosed by blast
next
  assume "isSpecificProtocol C Proto DistributedActorSystem"
  then show "\<not> list_ex isMissingWitnessDiag
             (snd (checkDistributedActorSystemAdHocProtocolRequirements C Proto decl False))"
    by (rule sweep_not_diagnosing_no_missing_witness)
qed

theorem wrong_return_type_is_no_match_witness:
  "\<not> hasTemplateReturnType remoteCall_returnsString False
   \<and> \<not> isDistributedActorSystemRemoteCall Error_wrongReturn remoteCall_returnsString False
   \<and> fst (GetDistributedActorSystemRemoteCallFunctionRequest_evaluate testContext
            Error_wrongReturn False) \<noteq> Some remoteCall_returnsString
   \<and> GetDistributedActorSystemRemoteCallFunctionRequest_evaluate testContext
        Error_wrongReturn False = (None, [])
   \<and> fst (checkDistributedActorSystemAdHocProtocolRequirements testContext
            ''DistributedActorSystem'' Error_wrongReturn True)
   \<and> set [distributed_actor_system_conformance_missing_adhoc_requirement ''struct''
             ''Error_wrongReturn'' ''remoteCall'',
           note_distributed_actor_system_conformance_missing_adhoc_requirement
             ''Error_wrongReturn'' ''remoteCall'']
       \<subseteq> set (snd (checkDistributedActorSystemAdHocProtocolRequirements testContext
                     ''DistributedActorSystem'' Error_wrongReturn True))
   \<and> \<not> list_ex isMissingWitnessDiag
          (snd (checkDistributedActorSystemAdHocProtocolRequirements testContext
                  ''DistributedActorSystem'' Error_wrongReturn False))
   \<and> fst (GetDistributedActorSystemRemoteCallFunctionRequest_evaluate testContext
            BadRemoteCall_notPublic False) = Some remoteCall_ok
   \<and> hasTemplateReturnType remoteCall_ok False"
proof -
  have wrong: "\<not> hasTemplateReturnType remoteCall_returnsString False"
    by (simp add: hasTemplateReturnType_def genericParamTypes_def test_call_defs test_decl_defs)
  have none_match:
    "\<forall>v \<in> set (lookupDirect Error_wrongReturn (if False then Id_remoteCallVoid else Id_remoteCall)).
       \<forall>f. dyn_cast_AbstractFunctionDecl v = Some f \<longrightarrow>
         \<not> isDistributedActorSystemRemoteCall Error_wrongReturn f False"
    by (simp add: resolution_defs test_call_defs test_decl_defs)
  have system: "isSpecificProtocol testContext ''DistributedActorSystem'' DistributedActorSystem"
    by (simp add: isSpecificProtocol_def testContext_def knownProtocolName_def)
  have diags: "diagnoseMissingAdHocRequirement Error_wrongReturn
                 (if False then Id_remoteCallVoid else Id_remoteCall)
               = [distributed_actor_system_conformance_missing_adhoc_requirement ''struct''
                    ''Error_wrongReturn'' ''remoteCall'',
                  note_distributed_actor_system_conformance_missing_adhoc_requirement
                    ''Error_wrongReturn'' ''remoteCall'']"
    by (simp add: diagnoseMissingAdHocRequirement_def Id_remoteCall_def Error_wrongReturn_def
          mkNominal_def)
  have found: "fst (GetDistributedActorSystemRemoteCallFunctionRequest_evaluate testContext
                      BadRemoteCall_notPublic False) = Some remoteCall_ok"
    by (simp add: resolution_defs test_call_defs test_decl_defs)
  note inst = wrong_return_type_is_no_match
                [of remoteCall_returnsString False Error_wrongReturn testContext
                    "''DistributedActorSystem''"]
  from inst wrong have r0:
    "\<not> isDistributedActorSystemRemoteCall Error_wrongReturn remoteCall_returnsString False"
    and r1: "fst (GetDistributedActorSystemRemoteCallFunctionRequest_evaluate testContext
            Error_wrongReturn False) \<noteq> Some remoteCall_returnsString"
    by blast+
  from inst none_match have r2:
    "GetDistributedActorSystemRemoteCallFunctionRequest_evaluate testContext
        Error_wrongReturn False = (None, [])"
    by blast
  from r2 have r2': "fst (GetDistributedActorSystemRemoteCallFunctionRequest_evaluate testContext
        Error_wrongReturn False) = None" by simp
  from inst system r2' have r3:
    "fst (checkDistributedActorSystemAdHocProtocolRequirements testContext
            ''DistributedActorSystem'' Error_wrongReturn True)
     \<and> set (diagnoseMissingAdHocRequirement Error_wrongReturn
               (if False then Id_remoteCallVoid else Id_remoteCall))
         \<subseteq> set (snd (checkDistributedActorSystemAdHocProtocolRequirements testContext
                     ''DistributedActorSystem'' Error_wrongReturn True))"
    by blast
  from inst system have r4:
    "\<not> list_ex isMissingWitnessDiag
          (snd (checkDistributedActorSystemAdHocProtocolRequirements testContext
                  ''DistributedActorSystem'' Error_wrongReturn False))"
    by blast
  from wrong_return_type_is_no_match
         [of remoteCall_ok False BadRemoteCall_notPublic testContext] found
  have r5: "hasTemplateReturnType remoteCall_ok False"
    by blast
  from wrong r0 r1 r2 r3 r4 found r5 diags show ?thesis by simp
qed

text \<open>C1 as stated fails where the conformance check runs with \<^verbatim>\<open>diagnose\<close> unset:
  for \<^verbatim>\<open>Error_wrongReturn\<close> the request for \<^verbatim>\<open>remoteCall\<close> answers with the null
  function, and the conformance check emits nothing and returns false.\<close>

theorem missing_witness_not_diagnosed_counterexample:
  "\<not> hasTemplateReturnType remoteCall_returnsString False
   \<and> GetDistributedActorSystemRemoteCallFunctionRequest_evaluate testContext
        Error_wrongReturn False = (None, [])
   \<and> isSpecificProtocol testContext ''DistributedActorSystem'' DistributedActorSystem
   \<and> checkDistributedActorSystemAdHocProtocolRequirements testContext
        ''DistributedActorSystem'' Error_wrongReturn False = (False, [])"
  by (simp add: hasTemplateReturnType_def resolution_defs sweep_defs test_call_defs test_decl_defs)

subsection \<open>The argument decoding method\<close>

text \<open>C3. A candidate of the shape the decoding request asks for is accepted if and only
  if the number of conformance requirements on its generic parameter whose protocol is in
  the serialization requirement equals the size of the requirement. Requirements that are
  not such conformances may be added anywhere without changing the answer; when the
  requirement and the candidate's requirements are without repetition, a candidate that
  leaves a protocol of the requirement uncovered is rejected; and under the empty
  requirement every candidate of the shape is accepted.\<close>

theorem decoding_candidate_counts_requirements:
  "decodeShapeValid FD paramTy \<longrightarrow>
     (decodeCandidateAccepted S (FuncDeclV FD) \<longleftrightarrow>
        numSerializationReqsCovered S paramTy (func_getGenericRequirements FD) = length S)
     \<and> ((\<forall>r \<in> set extras. \<not> (req_getKind r = Conformance \<and> req_getFirstType r = paramTy
              \<and> (\<exists>p \<in> set S. req_getProtocolDecl r = Some p)))
         \<and> func_getGenericRequirements FD = xs @ ys \<longrightarrow>
           (decodeCandidateAccepted S
              (FuncDeclV (FD\<lparr>func_getGenericRequirements := xs @ extras @ ys\<rparr>))
            \<longleftrightarrow> decodeCandidateAccepted S (FuncDeclV FD)))
     \<and> (distinct S \<and> distinct (func_getGenericRequirements FD)
         \<and> (\<exists>p \<in> set S. \<not> hasConformanceReq (func_getGenericRequirements FD) paramTy p) \<longrightarrow>
           \<not> decodeCandidateAccepted S (FuncDeclV FD))
     \<and> decodeCandidateAccepted [] (FuncDeclV FD)"
proof (intro impI conjI)
  assume shape: "decodeShapeValid FD paramTy"
  show count: "decodeCandidateAccepted S (FuncDeclV FD) \<longleftrightarrow>
          numSerializationReqsCovered S paramTy (func_getGenericRequirements FD) = length S"
    for S
    by (rule decodeCandidateAccepted_shape [OF shape])
  show "decodeCandidateAccepted [] (FuncDeclV FD)"
    unfolding count by (simp add: numSerializationReqsCovered_def option.case_eq_if)
  {
    assume h: "(\<forall>r \<in> set extras. \<not> (req_getKind r = Conformance \<and> req_getFirstType r = paramTy
              \<and> (\<exists>p \<in> set S. req_getProtocolDecl r = Some p)))
         \<and> func_getGenericRequirements FD = xs @ ys"
    have "decodeShapeValid (FD\<lparr>func_getGenericRequirements := xs @ extras @ ys\<rparr>) paramTy"
      using shape by (simp add: decodeShapeValid_requirements)
    from decodeCandidateAccepted_shape [OF this, of S]
    show "decodeCandidateAccepted S
              (FuncDeclV (FD\<lparr>func_getGenericRequirements := xs @ extras @ ys\<rparr>))
            \<longleftrightarrow> decodeCandidateAccepted S (FuncDeclV FD)"
      using h numSerializationReqsCovered_extras [of extras paramTy S xs ys]
      by (simp add: count)
  }
  {
    assume h: "distinct S \<and> distinct (func_getGenericRequirements FD)
         \<and> (\<exists>p \<in> set S. \<not> hasConformanceReq (func_getGenericRequirements FD) paramTy p)"
    then have "\<not> list_all (hasConformanceReq (func_getGenericRequirements FD) paramTy) S"
      by (simp add: list_all_iff)
    then show "\<not> decodeCandidateAccepted S (FuncDeclV FD)"
      using h numSerializationReqsCovered_all [of S "func_getGenericRequirements FD" paramTy]
      by (simp add: count)
  }
qed

theorem decoding_candidate_counts_requirements_witness:
  "decodeShapeValid decodeNextArgument_ok Argument
   \<and> decodeCandidateAccepted [''Encodable'', ''Decodable''] (FuncDeclV decodeNextArgument_ok)
   \<and> decodeCandidateAccepted [''Encodable'', ''Decodable''] (FuncDeclV decodeNextArgument_extra)
   \<and> \<not> decodeCandidateAccepted [''Encodable'', ''Decodable''] (FuncDeclV decodeNextArgument_fewer)
   \<and> decodeCandidateAccepted [] (FuncDeclV decodeNextArgument_fewer)"
proof -
  let ?S = "[''Encodable'', ''Decodable'']"
  have shape_ok: "decodeShapeValid decodeNextArgument_ok Argument"
    by (simp add: decode_defs)
  have shape_fewer: "decodeShapeValid decodeNextArgument_fewer Argument"
    by (simp add: decode_defs)
  have count_ok: "numSerializationReqsCovered ?S Argument
                    (func_getGenericRequirements decodeNextArgument_ok) = length ?S"
    by (simp add: decode_defs)
  have unrelated:
    "(\<forall>r \<in> set [conformanceReq Argument ''Sendable''].
        \<not> (req_getKind r = Conformance \<and> req_getFirstType r = Argument
           \<and> (\<exists>p \<in> set ?S. req_getProtocolDecl r = Some p)))
     \<and> func_getGenericRequirements decodeNextArgument_ok
         = [conformanceReq Argument ''Encodable''] @ [conformanceReq Argument ''Decodable'']"
    by (simp add: decode_defs)
  have extra: "decodeNextArgument_ok\<lparr>func_getGenericRequirements :=
                 [conformanceReq Argument ''Encodable''] @ [conformanceReq Argument ''Sendable'']
                 @ [conformanceReq Argument ''Decodable'']\<rparr> = decodeNextArgument_extra"
    by (simp add: decode_defs)
  have fewer: "distinct ?S \<and> distinct (func_getGenericRequirements decodeNextArgument_fewer)
         \<and> (\<exists>p \<in> set ?S. \<not> hasConformanceReq
                (func_getGenericRequirements decodeNextArgument_fewer) Argument p)"
    by (simp add: decode_defs)
  note ok = decoding_candidate_counts_requirements
              [of decodeNextArgument_ok Argument ?S "[conformanceReq Argument ''Sendable'']"
                  "[conformanceReq Argument ''Encodable'']"
                  "[conformanceReq Argument ''Decodable'']"]
  from ok shape_ok count_ok
  have r1: "decodeCandidateAccepted ?S (FuncDeclV decodeNextArgument_ok)"
    by blast
  from ok shape_ok unrelated r1 extra
  have r2: "decodeCandidateAccepted ?S (FuncDeclV decodeNextArgument_extra)"
    by metis
  note few = decoding_candidate_counts_requirements [of decodeNextArgument_fewer Argument ?S]
  from few shape_fewer fewer
  have r3: "\<not> decodeCandidateAccepted ?S (FuncDeclV decodeNextArgument_fewer)"
    by blast
  from few shape_fewer
  have r4: "decodeCandidateAccepted [] (FuncDeclV decodeNextArgument_fewer)"
    by blast
  from shape_ok r1 r2 r3 r4 show ?thesis by blast
qed




subsection \<open>Distributed functions\<close>

text \<open>C4, as the code has it. The check of a distributed function stops at its first
  defect and emits at most one of the diagnostics that make it return true. When the
  parameters before a parameter conform and are not in-out, and that parameter does not
  conform, the check returns true and emits, after the variadic diagnostics of the
  parameters before it, the diagnostic for that parameter when \<^verbatim>\<open>diagnose\<close> is set and
  nothing when it is unset. When that parameter conforms and is in-out, the check returns
  true and emits the in-out diagnostic for it, whatever the flag. When every parameter
  conforms and is not in-out and the result type is not void and does not conform, the
  check returns true with the diagnostic for the result when \<^verbatim>\<open>diagnose\<close> is set, and
  returns false without it when unset. Otherwise the check returns false. In every case
  nothing is emitted for a later parameter or for the result type after the first
  defect.\<close>

theorem validation_stops_at_first_defect:
  "func_isDistributed func \<and> serializationRequirementsOfContext C declContext = Inr reqs \<longrightarrow>
     (\<exists>failed ds. checkDistributedFunction C declContext func diagnose = Inr (failed, ds)
        \<and> length (filter isFailureDiag ds) \<le> 1
        \<and> (failed \<and> diagnose \<longrightarrow> length (filter isFailureDiag ds) = 1)
        \<and> (\<not> failed \<longrightarrow> filter isFailureDiag ds = []))
     \<and> (func_getParameters func = ps @ p # qs
         \<and> (\<forall>q \<in> set ps. paramConforms C reqs q \<and> \<not> param_isInOut q)
         \<and> firstFailingReq C (param_getInterfaceType p) reqs = Some req \<longrightarrow>
           checkDistributedFunction C declContext func diagnose =
             Inr (True, variadicDiags (func_getName func) ps
                        @ (if diagnose
                           then [distributed_actor_func_param_not_codable
                                   (param_getArgumentName p) (param_getInterfaceType p)
                                   (conformanceToSuggest C reqs req)]
                           else [])))
     \<and> (func_getParameters func = ps @ p # qs
         \<and> (\<forall>q \<in> set ps. paramConforms C reqs q \<and> \<not> param_isInOut q)
         \<and> paramConforms C reqs p \<and> param_isInOut p \<longrightarrow>
           checkDistributedFunction C declContext func diagnose =
             Inr (True, variadicDiags (func_getName func) ps
                        @ [distributed_actor_func_inout (param_getName p) (func_getName func)]))
     \<and> ((\<forall>q \<in> set (func_getParameters func). paramConforms C reqs q \<and> \<not> param_isInOut q)
         \<and> \<not> isVoid (func_getResultInterfaceType func)
         \<and> firstFailingReq C (func_getResultInterfaceType func) reqs = Some req \<longrightarrow>
           checkDistributedFunction C declContext func True =
             Inr (True, variadicDiags (func_getName func) (func_getParameters func)
                        @ [distributed_actor_target_result_not_codable
                             (func_getResultInterfaceType func) (func_getName func)
                             (conformanceToSuggest C reqs req)])
           \<and> checkDistributedFunction C declContext func False =
               Inr (False, variadicDiags (func_getName func) (func_getParameters func)))
     \<and> ((\<forall>q \<in> set (func_getParameters func). paramConforms C reqs q \<and> \<not> param_isInOut q)
         \<and> (isVoid (func_getResultInterfaceType func)
             \<or> firstFailingReq C (func_getResultInterfaceType func) reqs = None) \<longrightarrow>
           checkDistributedFunction C declContext func diagnose =
             Inr (False, variadicDiags (func_getName func) (func_getParameters func)))"
proof (intro impI conjI)
  assume h: "func_isDistributed func \<and> serializationRequirementsOfContext C declContext = Inr reqs"
  define isCodable where "isCodable = checkDistributedSerializationRequirementIsExactlyCodable C reqs"
  define pl where "pl = paramLoop C (func_getName func) reqs isCodable diagnose
                          (func_getParameters func)"
  define rl where "rl = resultTypeReqLoop C (func_getResultInterfaceType func)
                          (func_getName func) isCodable diagnose reqs"
  have unfold: "checkDistributedFunction C declContext func diagnose =
     (if fst pl then Inr (True, snd pl)
      else if isVoid (func_getResultInterfaceType func) then Inr (False, snd pl)
      else Inr (fst rl, snd pl @ snd rl))"
    using h checkDistributedFunction_unfold [of func C declContext reqs diagnose]
    by (simp add: pl_def rl_def isCodable_def)
  have pl1: "length (filter isFailureDiag (snd pl)) \<le> 1"
    and pl2: "fst pl \<and> diagnose \<longrightarrow> length (filter isFailureDiag (snd pl)) = 1"
    and pl3: "\<not> fst pl \<longrightarrow> filter isFailureDiag (snd pl) = []"
    using paramLoop_failure_diags [of C "func_getName func" reqs isCodable diagnose
            "func_getParameters func"]
    unfolding pl_def by blast+
  have rl1: "length (filter isFailureDiag (snd rl)) = (if fst rl then 1 else 0)"
    unfolding rl_def by (rule resultTypeReqLoop_failure_diags)
  show "\<exists>failed ds. checkDistributedFunction C declContext func diagnose = Inr (failed, ds)
        \<and> length (filter isFailureDiag ds) \<le> 1
        \<and> (failed \<and> diagnose \<longrightarrow> length (filter isFailureDiag ds) = 1)
        \<and> (\<not> failed \<longrightarrow> filter isFailureDiag ds = [])"
  proof (cases "fst pl")
    case True
    with unfold pl1 pl2 show ?thesis by auto
  next
    case False
    show ?thesis
    proof (cases "isVoid (func_getResultInterfaceType func)")
      case True
      with unfold False pl3 show ?thesis by auto
    next
      case notVoid: False
      with unfold False pl3 rl1 show ?thesis by (cases "fst rl") auto
    qed
  qed
next
  assume h: "func_isDistributed func \<and> serializationRequirementsOfContext C declContext = Inr reqs"
  assume first: "func_getParameters func = ps @ p # qs
         \<and> (\<forall>q \<in> set ps. paramConforms C reqs q \<and> \<not> param_isInOut q)
         \<and> firstFailingReq C (param_getInterfaceType p) reqs = Some req"
  then show "checkDistributedFunction C declContext func diagnose =
             Inr (True, variadicDiags (func_getName func) ps
                        @ (if diagnose
                           then [distributed_actor_func_param_not_codable
                                   (param_getArgumentName p) (param_getInterfaceType p)
                                   (conformanceToSuggest C reqs req)]
                           else []))"
    using h checkDistributedFunction_unfold [of func C declContext reqs diagnose]
      paramLoop_first_nonconforming [of ps C reqs p req "func_getName func"
        "checkDistributedSerializationRequirementIsExactlyCodable C reqs" diagnose qs]
    by (simp add: conformanceToSuggest_def)
next
  assume h: "func_isDistributed func \<and> serializationRequirementsOfContext C declContext = Inr reqs"
  assume first: "func_getParameters func = ps @ p # qs
         \<and> (\<forall>q \<in> set ps. paramConforms C reqs q \<and> \<not> param_isInOut q)
         \<and> paramConforms C reqs p \<and> param_isInOut p"
  then show "checkDistributedFunction C declContext func diagnose =
             Inr (True, variadicDiags (func_getName func) ps
                        @ [distributed_actor_func_inout (param_getName p) (func_getName func)])"
    using h checkDistributedFunction_unfold [of func C declContext reqs diagnose]
      paramLoop_first_inout [of ps C reqs p "func_getName func"
        "checkDistributedSerializationRequirementIsExactlyCodable C reqs" diagnose qs]
    by simp
next
  assume h: "func_isDistributed func \<and> serializationRequirementsOfContext C declContext = Inr reqs"
  assume r: "(\<forall>q \<in> set (func_getParameters func). paramConforms C reqs q \<and> \<not> param_isInOut q)
         \<and> \<not> isVoid (func_getResultInterfaceType func)
         \<and> firstFailingReq C (func_getResultInterfaceType func) reqs = Some req"
  show "checkDistributedFunction C declContext func True =
             Inr (True, variadicDiags (func_getName func) (func_getParameters func)
                        @ [distributed_actor_target_result_not_codable
                             (func_getResultInterfaceType func) (func_getName func)
                             (conformanceToSuggest C reqs req)])"
    using h r checkDistributedFunction_result_only(1) [of func C declContext reqs req] by blast
  show "checkDistributedFunction C declContext func False =
               Inr (False, variadicDiags (func_getName func) (func_getParameters func))"
    using h r checkDistributedFunction_result_only(2) [of func C declContext reqs req] by blast
next
  assume h: "func_isDistributed func \<and> serializationRequirementsOfContext C declContext = Inr reqs"
  assume ok: "(\<forall>q \<in> set (func_getParameters func). paramConforms C reqs q \<and> \<not> param_isInOut q)
         \<and> (isVoid (func_getResultInterfaceType func)
             \<or> firstFailingReq C (func_getResultInterfaceType func) reqs = None)"
  then have "isVoid (func_getResultInterfaceType func)
             \<or> (\<forall>req \<in> set reqs. ctx_conformsToProtocol C (func_getResultInterfaceType func) req)"
    by (auto simp: firstFailingReq_def find_None_iff)
  with h ok show "checkDistributedFunction C declContext func diagnose =
             Inr (False, variadicDiags (func_getName func) (func_getParameters func))"
    using checkDistributedFunction_all_conform [of func C declContext reqs diagnose] by blast
qed

theorem validation_stops_at_first_defect_witness:
  "func_isDistributed twoBadParams
   \<and> serializationRequirementsOfContext testContext (ClassDeclC Greeter)
       = Inr [''Encodable'', ''Decodable'']
   \<and> func_getParameters twoBadParams
       = [] @ mkParam ''a'' (NominalType ''NotCodable'')
            # [mkParam ''b'' (NominalType ''AlsoNotCodable'')]
   \<and> firstFailingReq testContext (NominalType ''NotCodable'') [''Encodable'', ''Decodable'']
       = Some ''Encodable''
   \<and> checkDistributedFunction testContext (ClassDeclC Greeter) twoBadParams True
       = Inr (True, [distributed_actor_func_param_not_codable ''a''
                       (NominalType ''NotCodable'') ''Codable''])
   \<and> checkDistributedFunction testContext (ClassDeclC Greeter) twoBadParams False
       = Inr (True, [])
   \<and> checkDistributedFunction testContext (ClassDeclC Greeter) inoutThenBad True
       = Inr (True, [distributed_actor_func_inout ''a'' ''inoutThenBad''])
   \<and> checkDistributedFunction testContext (ClassDeclC Greeter) badResult True
       = Inr (True, [distributed_actor_target_result_not_codable
                       (NominalType ''NotCodable'') ''badResult'' ''Codable''])
   \<and> checkDistributedFunction testContext (ClassDeclC Greeter) badResult False
       = Inr (False, [])
   \<and> checkDistributedFunction testContext (ClassDeclC Greeter) variadicParam True
       = Inr (False, [distributed_actor_func_variadic ''a'' ''variadicParam''])
   \<and> (\<exists>failed ds. checkDistributedFunction testContext (ClassDeclC Greeter) twoBadParams True
                     = Inr (failed, ds)
          \<and> length (filter isFailureDiag ds) \<le> 1)"
proof -
  let ?reqs = "[''Encodable'', ''Decodable'']"
  let ?C = testContext
  let ?dc = "ClassDeclC Greeter"
  let ?a = "mkParam ''a'' (NominalType ''NotCodable'')"
  let ?ia = "(mkParam ''a'' (NominalType ''Int''))\<lparr>param_isInOut := True\<rparr>"
  have distributed: "func_isDistributed twoBadParams" "func_isDistributed inoutThenBad"
    "func_isDistributed badResult" "func_isDistributed variadicParam"
    by (simp_all add: function_defs)
  have reqs: "serializationRequirementsOfContext ?C ?dc = Inr ?reqs"
    by (simp add: function_defs)
  have params: "func_getParameters twoBadParams
       = [] @ ?a # [mkParam ''b'' (NominalType ''AlsoNotCodable'')]"
    by (simp add: function_defs)
  have params_io: "func_getParameters inoutThenBad
       = [] @ ?ia # [mkParam ''b'' (NominalType ''NotCodable'')]"
    by (simp add: function_defs)
  have earlier: "\<forall>q \<in> set []. paramConforms ?C ?reqs q \<and> \<not> param_isInOut q"
    by simp
  have bad: "firstFailingReq ?C (param_getInterfaceType ?a) ?reqs = Some ''Encodable''"
    "firstFailingReq ?C (NominalType ''NotCodable'') ?reqs = Some ''Encodable''"
    by (simp_all add: function_defs)
  have io: "paramConforms ?C ?reqs ?ia \<and> param_isInOut ?ia"
    by (simp add: function_defs)
  have fine_bad: "(\<forall>q \<in> set (func_getParameters badResult).
                     paramConforms ?C ?reqs q \<and> \<not> param_isInOut q)
         \<and> \<not> isVoid (func_getResultInterfaceType badResult)
         \<and> firstFailingReq ?C (func_getResultInterfaceType badResult) ?reqs = Some ''Encodable''"
    by (simp add: function_defs)
  have fine_var: "(\<forall>q \<in> set (func_getParameters variadicParam).
                     paramConforms ?C ?reqs q \<and> \<not> param_isInOut q)
         \<and> (isVoid (func_getResultInterfaceType variadicParam)
             \<or> firstFailingReq ?C (func_getResultInterfaceType variadicParam) ?reqs = None)"
    by (simp add: function_defs)
  have shown:
    "variadicDiags (func_getName twoBadParams) []
       @ [distributed_actor_func_param_not_codable (param_getArgumentName ?a)
            (param_getInterfaceType ?a) (conformanceToSuggest ?C ?reqs ''Encodable'')]
     = [distributed_actor_func_param_not_codable ''a'' (NominalType ''NotCodable'') ''Codable'']"
    "variadicDiags (func_getName twoBadParams) [] @ [] = []"
    by (simp_all add: function_defs)
  have shown_io:
    "variadicDiags (func_getName inoutThenBad) []
       @ [distributed_actor_func_inout (param_getName ?ia) (func_getName inoutThenBad)]
     = [distributed_actor_func_inout ''a'' ''inoutThenBad'']"
    by (simp add: function_defs)
  have shown_bad:
    "variadicDiags (func_getName badResult) (func_getParameters badResult)
       @ [distributed_actor_target_result_not_codable (func_getResultInterfaceType badResult)
            (func_getName badResult) (conformanceToSuggest ?C ?reqs ''Encodable'')]
     = [distributed_actor_target_result_not_codable (NominalType ''NotCodable'') ''badResult''
          ''Codable'']"
    "variadicDiags (func_getName badResult) (func_getParameters badResult) = []"
    by (simp_all add: function_defs)
  have shown_var:
    "variadicDiags (func_getName variadicParam) (func_getParameters variadicParam)
     = [distributed_actor_func_variadic ''a'' ''variadicParam'']"
    by (simp add: function_defs)
  note two = validation_stops_at_first_defect
               [of twoBadParams ?C ?dc ?reqs _ "[]" ?a
                   "[mkParam ''b'' (NominalType ''AlsoNotCodable'')]" "''Encodable''"]
  from two [of True] distributed(1) reqs params earlier bad(1)
  have "checkDistributedFunction ?C ?dc twoBadParams True =
          Inr (True, variadicDiags (func_getName twoBadParams) []
                 @ (if True then [distributed_actor_func_param_not_codable
                                    (param_getArgumentName ?a) (param_getInterfaceType ?a)
                                    (conformanceToSuggest ?C ?reqs ''Encodable'')]
                    else []))"
    by blast
  then have r1: "checkDistributedFunction ?C ?dc twoBadParams True
       = Inr (True, [distributed_actor_func_param_not_codable ''a''
                       (NominalType ''NotCodable'') ''Codable''])"
    by (simp only: shown if_True)
  from two [of False] distributed(1) reqs params earlier bad(1)
  have "checkDistributedFunction ?C ?dc twoBadParams False =
          Inr (True, variadicDiags (func_getName twoBadParams) []
                 @ (if False then [distributed_actor_func_param_not_codable
                                    (param_getArgumentName ?a) (param_getInterfaceType ?a)
                                    (conformanceToSuggest ?C ?reqs ''Encodable'')]
                    else []))"
    by blast
  then have r2: "checkDistributedFunction ?C ?dc twoBadParams False = Inr (True, [])"
    by (simp only: shown if_False)
  from validation_stops_at_first_defect
         [of inoutThenBad ?C ?dc ?reqs True "[]" ?ia "[mkParam ''b'' (NominalType ''NotCodable'')]"]
    distributed(2) reqs params_io earlier io
  have "checkDistributedFunction ?C ?dc inoutThenBad True =
          Inr (True, variadicDiags (func_getName inoutThenBad) []
                 @ [distributed_actor_func_inout (param_getName ?ia) (func_getName inoutThenBad)])"
    by blast
  then have r3: "checkDistributedFunction ?C ?dc inoutThenBad True
       = Inr (True, [distributed_actor_func_inout ''a'' ''inoutThenBad''])"
    by (simp only: shown_io)
  from validation_stops_at_first_defect
         [of badResult ?C ?dc ?reqs True _ _ _ "''Encodable''"] distributed(3) reqs fine_bad
  have b1: "checkDistributedFunction ?C ?dc badResult True =
          Inr (True, variadicDiags (func_getName badResult) (func_getParameters badResult)
                 @ [distributed_actor_target_result_not_codable
                      (func_getResultInterfaceType badResult) (func_getName badResult)
                      (conformanceToSuggest ?C ?reqs ''Encodable'')])"
    and b2: "checkDistributedFunction ?C ?dc badResult False =
          Inr (False, variadicDiags (func_getName badResult) (func_getParameters badResult))"
    by blast+
  from b1 have r4: "checkDistributedFunction ?C ?dc badResult True
       = Inr (True, [distributed_actor_target_result_not_codable
                       (NominalType ''NotCodable'') ''badResult'' ''Codable''])"
    by (simp only: shown_bad(1))
  from b2 have r5: "checkDistributedFunction ?C ?dc badResult False = Inr (False, [])"
    by (simp only: shown_bad(2))
  from validation_stops_at_first_defect [of variadicParam ?C ?dc ?reqs True]
    distributed(4) reqs fine_var
  have "checkDistributedFunction ?C ?dc variadicParam True =
          Inr (False, variadicDiags (func_getName variadicParam)
                        (func_getParameters variadicParam))"
    by blast
  then have r6: "checkDistributedFunction ?C ?dc variadicParam True
       = Inr (False, [distributed_actor_func_variadic ''a'' ''variadicParam''])"
    by (simp only: shown_var)
  from two [of True] distributed(1) reqs
  have r7: "\<exists>failed ds. checkDistributedFunction ?C ?dc twoBadParams True = Inr (failed, ds)
          \<and> length (filter isFailureDiag ds) \<le> 1"
    by blast
  from distributed(1) reqs params bad(2) r1 r2 r3 r4 r5 r6 r7 show ?thesis by blast
qed

text \<open>C4 as stated fails for a function whose two parameters and whose result type do not
  conform: only the first parameter is diagnosed.\<close>

theorem second_defect_not_diagnosed_counterexample:
  "map param_getInterfaceType (func_getParameters twoBadParams)
     = [NominalType ''NotCodable'', NominalType ''AlsoNotCodable'']
   \<and> func_getResultInterfaceType twoBadParams = NominalType ''NotCodable''
   \<and> \<not> ctx_conformsToProtocol testContext (NominalType ''NotCodable'') ''Encodable''
   \<and> \<not> ctx_conformsToProtocol testContext (NominalType ''AlsoNotCodable'') ''Encodable''
   \<and> checkDistributedFunction testContext (ClassDeclC Greeter) twoBadParams True
       = Inr (True, [distributed_actor_func_param_not_codable ''a''
                       (NominalType ''NotCodable'') ''Codable''])"
  by code_simp

text \<open>C7. For a distributed function whose serialization requirement resolves, an in-out
  parameter makes the check return true. Clearing the variadic flag of every parameter
  does not change what the check returns, and a function whose parameters all conform and
  are not in-out, and whose result is void or conforms, passes the check with exactly the
  variadic diagnostics of its parameters.\<close>

theorem inout_fails_variadic_advises:
  "func_isDistributed func \<and> serializationRequirementsOfContext C declContext = Inr reqs \<longrightarrow>
     ((\<exists>p \<in> set (func_getParameters func). param_isInOut p) \<longrightarrow>
        returnedFlag (checkDistributedFunction C declContext func diagnose) = Some True)
     \<and> returnedFlag (checkDistributedFunction C declContext
                       (func\<lparr>func_getParameters :=
                          map (param_isVariadic_update (\<lambda>_. False)) (func_getParameters func)\<rparr>)
                       diagnose)
         = returnedFlag (checkDistributedFunction C declContext func diagnose)
     \<and> ((\<forall>p \<in> set (func_getParameters func). paramConforms C reqs p \<and> \<not> param_isInOut p)
         \<and> (isVoid (func_getResultInterfaceType func)
             \<or> (\<forall>req \<in> set reqs.
                   ctx_conformsToProtocol C (func_getResultInterfaceType func) req)) \<longrightarrow>
           checkDistributedFunction C declContext func diagnose
             = Inr (False, variadicDiags (func_getName func) (func_getParameters func)))"
proof (intro impI conjI)
  assume h: "func_isDistributed func \<and> serializationRequirementsOfContext C declContext = Inr reqs"
  then have d: "func_isDistributed func"
    and r: "serializationRequirementsOfContext C declContext = Inr reqs"
    by simp_all
  {
    assume "\<exists>p \<in> set (func_getParameters func). param_isInOut p"
    then show "returnedFlag (checkDistributedFunction C declContext func diagnose) = Some True"
      by (simp add: checkDistributedFunction_flag [OF d r] paramLoop_inout)
  }
  have d': "func_isDistributed (func\<lparr>func_getParameters :=
              map (param_isVariadic_update (\<lambda>_. False)) (func_getParameters func)\<rparr>)"
    using d by simp
  show "returnedFlag (checkDistributedFunction C declContext
                       (func\<lparr>func_getParameters :=
                          map (param_isVariadic_update (\<lambda>_. False)) (func_getParameters func)\<rparr>)
                       diagnose)
         = returnedFlag (checkDistributedFunction C declContext func diagnose)"
    by (simp add: checkDistributedFunction_flag [OF d r] checkDistributedFunction_flag [OF d' r]
          paramLoop_variadic_flag)
  {
    assume "(\<forall>p \<in> set (func_getParameters func). paramConforms C reqs p \<and> \<not> param_isInOut p)
         \<and> (isVoid (func_getResultInterfaceType func)
             \<or> (\<forall>req \<in> set reqs.
                   ctx_conformsToProtocol C (func_getResultInterfaceType func) req))"
    then show "checkDistributedFunction C declContext func diagnose
             = Inr (False, variadicDiags (func_getName func) (func_getParameters func))"
      using checkDistributedFunction_all_conform [OF d r, of diagnose] by blast
  }
qed

theorem inout_fails_variadic_advises_witness:
  "func_isDistributed inoutParam
   \<and> serializationRequirementsOfContext testContext (ClassDeclC Greeter)
       = Inr [''Encodable'', ''Decodable'']
   \<and> list_ex param_isInOut (func_getParameters inoutParam)
   \<and> returnedFlag (checkDistributedFunction testContext (ClassDeclC Greeter) inoutParam True)
       = Some True
   \<and> list_ex param_isVariadic (func_getParameters variadicParam)
   \<and> checkDistributedFunction testContext (ClassDeclC Greeter) variadicParam True
       = Inr (False, [distributed_actor_func_variadic ''a'' ''variadicParam''])"
proof -
  let ?reqs = "[''Encodable'', ''Decodable'']"
  have reqs: "serializationRequirementsOfContext testContext (ClassDeclC Greeter) = Inr ?reqs"
    by (simp add: function_defs)
  have d1: "func_isDistributed inoutParam" and d2: "func_isDistributed variadicParam"
    by (simp_all add: function_defs)
  have io: "\<exists>p \<in> set (func_getParameters inoutParam). param_isInOut p"
    by (simp add: function_defs)
  have va: "list_ex param_isVariadic (func_getParameters variadicParam)"
    by (simp add: function_defs)
  have fine: "(\<forall>p \<in> set (func_getParameters variadicParam).
                 paramConforms testContext ?reqs p \<and> \<not> param_isInOut p)
         \<and> (isVoid (func_getResultInterfaceType variadicParam)
             \<or> (\<forall>req \<in> set ?reqs.
                   ctx_conformsToProtocol testContext
                     (func_getResultInterfaceType variadicParam) req))"
    by (simp add: function_defs)
  have vd: "variadicDiags (func_getName variadicParam) (func_getParameters variadicParam)
              = [distributed_actor_func_variadic ''a'' ''variadicParam'']"
    by (simp add: function_defs)
  from inout_fails_variadic_advises [of inoutParam testContext "ClassDeclC Greeter" ?reqs True]
    d1 reqs io
  have r1: "returnedFlag (checkDistributedFunction testContext (ClassDeclC Greeter) inoutParam True)
              = Some True"
    by blast
  from inout_fails_variadic_advises [of variadicParam testContext "ClassDeclC Greeter" ?reqs True]
    d2 reqs fine
  have "checkDistributedFunction testContext (ClassDeclC Greeter) variadicParam True
          = Inr (False, variadicDiags (func_getName variadicParam)
                          (func_getParameters variadicParam))"
    by blast
  then have r2: "checkDistributedFunction testContext (ClassDeclC Greeter) variadicParam True
       = Inr (False, [distributed_actor_func_variadic ''a'' ''variadicParam''])"
    unfolding vd .
  from d1 reqs io va r1 r2 show ?thesis by (simp add: list_ex_iff)
qed

text \<open>C10. With \<^verbatim>\<open>diagnose\<close> unset, the result-type check of a function or a property
  returns false and emits nothing, whatever the result type; it returns true only with
  \<^verbatim>\<open>diagnose\<close> set, where a result type that is not void and fails a protocol of the
  requirement makes it return true with one diagnostic. So with \<^verbatim>\<open>diagnose\<close> unset a
  distributed function whose parameters conform and are not in-out passes the check
  whatever its result type.\<close>

theorem result_check_fails_only_when_diagnosing:
  "checkDistributedTargetResultType C (FuncDeclV func) reqs False = Inr (False, [])
   \<and> checkDistributedTargetResultType C (VarDeclV var) reqs False = Inr (False, [])
   \<and> (returnedFlag (checkDistributedTargetResultType C valueDecl reqs diagnose) = Some True
        \<longrightarrow> diagnose)
   \<and> (\<not> isVoid (func_getResultInterfaceType func)
       \<and> (\<exists>req \<in> set reqs. \<not> ctx_conformsToProtocol C (func_getResultInterfaceType func) req)
       \<longrightarrow> (\<exists>s. checkDistributedTargetResultType C (FuncDeclV func) reqs True
                  = Inr (True, [distributed_actor_target_result_not_codable
                                  (func_getResultInterfaceType func) (func_getName func) s])))
   \<and> (func_isDistributed func \<and> serializationRequirementsOfContext C declContext = Inr reqs
       \<and> (\<forall>p \<in> set (func_getParameters func). paramConforms C reqs p \<and> \<not> param_isInOut p)
       \<longrightarrow> checkDistributedFunction C declContext func False
             = Inr (False, variadicDiags (func_getName func) (func_getParameters func)))"
proof (intro conjI impI)
  show "checkDistributedTargetResultType C (FuncDeclV func) reqs False = Inr (False, [])"
    by (simp add: checkDistributedTargetResultType_def resultTypeReqLoop_not_diagnosing)
  show "checkDistributedTargetResultType C (VarDeclV var) reqs False = Inr (False, [])"
    by (simp add: checkDistributedTargetResultType_def resultTypeReqLoop_not_diagnosing)
  {
    assume "returnedFlag (checkDistributedTargetResultType C valueDecl reqs diagnose) = Some True"
    moreover have "returnedFlag (checkDistributedTargetResultType C valueDecl reqs False)
                     \<noteq> Some True"
      by (cases valueDecl)
         (simp_all add: checkDistributedTargetResultType_def resultTypeReqLoop_not_diagnosing)
    ultimately show diagnose
      by (cases diagnose) auto
  }
  {
    assume h: "\<not> isVoid (func_getResultInterfaceType func)
       \<and> (\<exists>req \<in> set reqs. \<not> ctx_conformsToProtocol C (func_getResultInterfaceType func) req)"
    then obtain s where
      "resultTypeReqLoop C (func_getResultInterfaceType func) (func_getName func)
         (checkDistributedSerializationRequirementIsExactlyCodable C reqs) True reqs
       = (True, [distributed_actor_target_result_not_codable
                   (func_getResultInterfaceType func) (func_getName func) s])"
      using resultTypeReqLoop_diagnosing by blast
    with h show "\<exists>s. checkDistributedTargetResultType C (FuncDeclV func) reqs True
                  = Inr (True, [distributed_actor_target_result_not_codable
                                  (func_getResultInterfaceType func) (func_getName func) s])"
      by (simp add: checkDistributedTargetResultType_def)
  }
  {
    assume "func_isDistributed func \<and> serializationRequirementsOfContext C declContext = Inr reqs
       \<and> (\<forall>p \<in> set (func_getParameters func). paramConforms C reqs p \<and> \<not> param_isInOut p)"
    then show "checkDistributedFunction C declContext func False
             = Inr (False, variadicDiags (func_getName func) (func_getParameters func))"
      using checkDistributedFunction_all_conform [of func C declContext reqs False] by blast
  }
qed

theorem result_check_fails_only_when_diagnosing_witness:
  "\<not> isVoid (func_getResultInterfaceType badResult)
   \<and> \<not> ctx_conformsToProtocol testContext (func_getResultInterfaceType badResult) ''Encodable''
   \<and> (\<exists>s. checkDistributedTargetResultType testContext (FuncDeclV badResult)
             [''Encodable'', ''Decodable''] True
            = Inr (True, [distributed_actor_target_result_not_codable
                            (NominalType ''NotCodable'') ''badResult'' s]))
   \<and> checkDistributedTargetResultType testContext (FuncDeclV badResult)
        [''Encodable'', ''Decodable''] False = Inr (False, [])
   \<and> checkDistributedFunction testContext (ClassDeclC Greeter) badResult False = Inr (False, [])"
proof -
  let ?reqs = "[''Encodable'', ''Decodable'']"
  have reqs: "serializationRequirementsOfContext testContext (ClassDeclC Greeter) = Inr ?reqs"
    by (simp add: function_defs)
  have d: "func_isDistributed badResult"
    by (simp add: function_defs)
  have nv: "\<not> isVoid (func_getResultInterfaceType badResult)"
    by (simp add: function_defs)
  have nc: "\<not> ctx_conformsToProtocol testContext (func_getResultInterfaceType badResult)
               ''Encodable''"
    by (simp add: function_defs)
  have bad: "\<exists>req \<in> set ?reqs.
               \<not> ctx_conformsToProtocol testContext (func_getResultInterfaceType badResult) req"
    using nc by simp
  have params: "\<forall>p \<in> set (func_getParameters badResult).
                  paramConforms testContext ?reqs p \<and> \<not> param_isInOut p"
    by (simp add: function_defs)
  have names: "func_getResultInterfaceType badResult = NominalType ''NotCodable''"
    "func_getName badResult = ''badResult''"
    "variadicDiags (func_getName badResult) (func_getParameters badResult) = []"
    by (simp_all add: function_defs)
  note inst = result_check_fails_only_when_diagnosing
                [of testContext badResult ?reqs _ _ _ "ClassDeclC Greeter"]
  from inst nv bad
  have "\<exists>s. checkDistributedTargetResultType testContext (FuncDeclV badResult) ?reqs True
                  = Inr (True, [distributed_actor_target_result_not_codable
                                  (func_getResultInterfaceType badResult)
                                  (func_getName badResult) s])"
    by blast
  then have r1: "\<exists>s. checkDistributedTargetResultType testContext (FuncDeclV badResult) ?reqs True
            = Inr (True, [distributed_actor_target_result_not_codable
                            (NominalType ''NotCodable'') ''badResult'' s])"
    unfolding names .
  from inst
  have r2: "checkDistributedTargetResultType testContext (FuncDeclV badResult) ?reqs False
              = Inr (False, [])"
    by blast
  from inst d reqs params
  have "checkDistributedFunction testContext (ClassDeclC Greeter) badResult False
          = Inr (False, variadicDiags (func_getName badResult) (func_getParameters badResult))"
    by blast
  then have r3: "checkDistributedFunction testContext (ClassDeclC Greeter) badResult False
                   = Inr (False, [])"
    by (simp only: names(3))
  from nv nc r1 r2 r3 show ?thesis by blast
qed

subsection \<open>A serialization requirement that does not resolve\<close>

text \<open>C8. When the type bound to the serialization requirement of a nominal type has an
  error, the requirement protocols are the empty set. The validators then ask for no
  conformance: the check of a distributed function of that type returns true only for an
  in-out parameter and emits no conformance diagnostic, the check of a well-formed
  distributed property passes without a diagnostic, and every candidate of the right
  shape is accepted as the argument decoding method.\<close>

theorem unresolvable_requirement_is_unconstrained:
  "hasError (nominal_getSerializationRequirementType nominal) \<longrightarrow>
     getDistributedSerializationRequirementProtocols nominal protocol = Inr []
     \<and> (func_isDistributed func \<longrightarrow>
          (\<exists>ds. checkDistributedFunction C (ClassDeclC nominal) func diagnose
                   = Inr (list_ex param_isInOut (func_getParameters func), ds)
                 \<and> \<not> list_ex isConformanceDiag ds))
     \<and> (\<not> var_isStatic var \<and> \<not> var_isLet var \<and> \<not> var_hasStorageOrWrapsStorage var
         \<and> var_getWriteImpl var = Immutable \<longrightarrow>
           checkDistributedActorProperty C nominal var diagnose = Inr (False, []))
     \<and> (decodeShapeValid FD paramTy \<longrightarrow>
          (\<exists>S. getDistributedSerializationRequirementProtocols nominal protocol = Inr S
                \<and> decodeCandidateAccepted S (FuncDeclV FD)))"
proof (intro impI conjI)
  assume err: "hasError (nominal_getSerializationRequirementType nominal)"
  show empty: "getDistributedSerializationRequirementProtocols nominal protocol = Inr []"
    for protocol
    using err
    by (cases protocol) (simp_all add: getDistributedSerializationRequirementProtocols_def)
  {
    assume d: "func_isDistributed func"
    have r: "serializationRequirementsOfContext C (ClassDeclC nominal) = Inr []"
      by (simp add: serializationRequirementsOfContext_def empty)
    show "\<exists>ds. checkDistributedFunction C (ClassDeclC nominal) func diagnose
                   = Inr (list_ex param_isInOut (func_getParameters func), ds)
                 \<and> \<not> list_ex isConformanceDiag ds"
      using paramLoop_unconstrained [of C "func_getName func"
              "checkDistributedSerializationRequirementIsExactlyCodable C []" diagnose
              "func_getParameters func"]
      by (auto simp: checkDistributedFunction_unfold [OF d r])
  }
  {
    assume "\<not> var_isStatic var \<and> \<not> var_isLet var \<and> \<not> var_hasStorageOrWrapsStorage var
         \<and> var_getWriteImpl var = Immutable"
    then show "checkDistributedActorProperty C nominal var diagnose = Inr (False, [])"
      by (simp add: checkDistributedActorProperty_def empty checkDistributedTargetResultType_def)
  }
  {
    assume "decodeShapeValid FD paramTy"
    then show "\<exists>S. getDistributedSerializationRequirementProtocols nominal protocol = Inr S
                \<and> decodeCandidateAccepted S (FuncDeclV FD)"
      using empty decodeCandidateAccepted_unconstrained by blast
  }
qed

theorem unresolvable_requirement_is_unconstrained_witness:
  "hasError (nominal_getSerializationRequirementType BrokenGreeter)
   \<and> getDistributedSerializationRequirementProtocols BrokenGreeter (Some ''DistributedActor'')
       = Inr []
   \<and> func_isDistributed twoBadParams
   \<and> (\<exists>ds. checkDistributedFunction testContext (ClassDeclC BrokenGreeter) twoBadParams True
              = Inr (False, ds)
            \<and> \<not> list_ex isConformanceDiag ds)
   \<and> decodeShapeValid decodeNextArgument_fewer Argument
   \<and> (\<exists>S. getDistributedSerializationRequirementProtocols BrokenGreeter
              (Some ''DistributedActor'') = Inr S
            \<and> decodeCandidateAccepted S (FuncDeclV decodeNextArgument_fewer))"
proof -
  have err: "hasError (nominal_getSerializationRequirementType BrokenGreeter)"
    by (simp add: function_defs)
  have d: "func_isDistributed twoBadParams"
    by (simp add: function_defs)
  have io: "list_ex param_isInOut (func_getParameters twoBadParams) = False"
    by (simp add: function_defs)
  have shape: "decodeShapeValid decodeNextArgument_fewer Argument"
    by (simp add: decode_defs)
  note inst = unresolvable_requirement_is_unconstrained
                [of BrokenGreeter "Some ''DistributedActor''" twoBadParams testContext True
                    _ decodeNextArgument_fewer Argument]
  from inst err
  have r1: "getDistributedSerializationRequirementProtocols BrokenGreeter
              (Some ''DistributedActor'') = Inr []"
    by blast
  from inst err d
  have "\<exists>ds. checkDistributedFunction testContext (ClassDeclC BrokenGreeter) twoBadParams True
              = Inr (list_ex param_isInOut (func_getParameters twoBadParams), ds)
            \<and> \<not> list_ex isConformanceDiag ds"
    by blast
  then have r2: "\<exists>ds. checkDistributedFunction testContext (ClassDeclC BrokenGreeter)
                        twoBadParams True = Inr (False, ds)
                      \<and> \<not> list_ex isConformanceDiag ds"
    unfolding io .
  from inst err shape
  have r3: "\<exists>S. getDistributedSerializationRequirementProtocols BrokenGreeter
              (Some ''DistributedActor'') = Inr S
            \<and> decodeCandidateAccepted S (FuncDeclV decodeNextArgument_fewer)"
    by blast
  from err r1 d r2 shape r3 show ?thesis by blast
qed

end
